theory Spec2Isabelle
  imports Main "HOL-Library.Sublist"
begin

section \<open>JavaScript strings\<close>

text \<open>
  A JavaScript string is a sequence of UTF-16 code units, and \<open>length\<close>, \<open>includes\<close>,
  \<open>startsWith\<close> and \<open>===\<close> all work on code units. A code unit is modelled as a natural
  number, so that both \<open>U+00D6\<close> and the combining mark \<open>U+0308\<close> are single elements.
  \<open>str\<close> turns an ASCII literal of the theory into such a string.
\<close>

type_synonym jsstring = "nat list"

definition str :: "string \<Rightarrow> jsstring" where
  "str s = map of_char s"

text \<open>\<open>code.startsWith(p)\<close>\<close>

definition startsWith :: "jsstring \<Rightarrow> jsstring \<Rightarrow> bool" where
  "startsWith s p = prefix p s"

text \<open>
  \<open>toLowerCase\<close>, \<open>toUpperCase\<close> and \<open>normalize("NFD")\<close> belong to the runtime and rest
  on the tables of Unicode. They are parameters: every property below holds whatever
  the three functions are, unless it names a law of them that it needs.
\<close>

record unicode =
  toLowerCase :: "jsstring \<Rightarrow> jsstring"
  toUpperCase :: "jsstring \<Rightarrow> jsstring"
  normalizeNFD :: "jsstring \<Rightarrow> jsstring"

text \<open>
  The characters matched by \<open>\s\<close> in a regular expression and removed by \<open>trim()\<close>:
  the white space and line terminator code units of ECMAScript.
\<close>

definition isWhiteSpace :: "nat \<Rightarrow> bool" where
  "isWhiteSpace c \<longleftrightarrow>
     c \<in> set [9, 10, 11, 12, 13, 32, 160, 5760, 8232, 8233, 8239, 8287, 12288, 65279]
     \<or> (8192 \<le> c \<and> c \<le> 8202)"

definition trim :: "jsstring \<Rightarrow> jsstring" where
  "trim s = rev (dropWhile isWhiteSpace (rev (dropWhile isWhiteSpace s)))"

text \<open>\<open>s.split(sep)\<close> for a separator of one code unit; the result is never empty.\<close>

fun splitOn :: "nat \<Rightarrow> jsstring \<Rightarrow> jsstring \<Rightarrow> jsstring list" where
  "splitOn sep cur [] = [cur]"
| "splitOn sep cur (c # cs) =
     (if c = sep then cur # splitOn sep [] cs else splitOn sep (cur @ [c]) cs)"

text \<open>
  \<open>s.split(/\s+/)\<close>: every maximal run of white space is one separator, so a string that
  starts or ends with white space yields an empty first or last piece.
\<close>

function splitWs :: "jsstring \<Rightarrow> jsstring \<Rightarrow> jsstring list" where
  "splitWs cur [] = [cur]"
| "splitWs cur (c # cs) =
     (if isWhiteSpace c then cur # splitWs [] (dropWhile isWhiteSpace cs)
      else splitWs (cur @ [c]) cs)"
  by pat_completeness auto
termination
  by (relation "measure (\<lambda>(cur, s). length s)")
     (auto simp: length_dropWhile_le less_Suc_eq_le)

text \<open>\<open>text.includes(t)\<close>: \<open>t\<close> occurs in \<open>text\<close> as a contiguous block.\<close>

fun jsIncludes :: "jsstring \<Rightarrow> jsstring \<Rightarrow> bool" where
  "jsIncludes [] t = (t = [])"
| "jsIncludes (c # cs) t = (prefix t (c # cs) \<or> jsIncludes cs t)"

text \<open>\<open>parts.join(sep)\<close>\<close>

fun join :: "jsstring \<Rightarrow> jsstring list \<Rightarrow> jsstring" where
  "join sep [] = []"
| "join sep [x] = x"
| "join sep (x # y # ys) = x @ sep @ join sep (y # ys)"

text \<open>\<open>String(n)\<close> for a non-negative integer: its decimal digits.\<close>

fun natToString :: "nat \<Rightarrow> jsstring" where
  "natToString n = (if n < 10 then [48 + n] else natToString (n div 10) @ [48 + n mod 10])"

declare natToString.simps [simp del]

text \<open>
  \<open>xs.slice(0, n)\<close>: a negative \<open>n\<close> counts from the end of the array.
\<close>

definition slice0 :: "'a list \<Rightarrow> int \<Rightarrow> 'a list" where
  "slice0 xs n = (if n < 0 then take (length xs - nat (- n)) xs else take (nat n) xs)"

text \<open>
  \<open>m.set(k, v)\<close> on a \<open>Map\<close>, and a property written by an object spread: an existing key
  keeps its position and takes the new value, a new key goes to the end.
\<close>

fun setKey :: "'k \<Rightarrow> 'v \<Rightarrow> ('k \<times> 'v) list \<Rightarrow> ('k \<times> 'v) list" where
  "setKey k v [] = [(k, v)]"
| "setKey k v ((k', v') # kvs) = (if k' = k then (k, v) # kvs else (k', v') # setKey k v kvs)"

definition setAll :: "('k \<times> 'v) list \<Rightarrow> ('k \<times> 'v) list \<Rightarrow> ('k \<times> 'v) list" where
  "setAll base kvs = foldl (\<lambda>acc (k, v). setKey k v acc) base kvs"

section \<open>The rate-limited fetcher\<close>

text \<open>
  The module's variables are the state; \<open>clock\<close> is what \<open>Date.now()\<close> returns, in
  milliseconds. The state is threaded through every operation.
\<close>

record TocEntry =
  toc_code :: jsstring
  toc_title :: jsstring
  toc_type :: jsstring
  toc_lastUpdate :: "jsstring option"
  toc_dataStart :: "jsstring option"
  toc_dataEnd :: "jsstring option"
  toc_values :: "jsstring option"

record GeoCode =
  geo_code :: jsstring
  geo_name :: jsstring
  geo_level :: jsstring

record state =
  clock :: int
  lastRequestTime :: int
  cachedToc :: "TocEntry list option"
  tocCachedAt :: int
  cachedGeoCodes :: "GeoCode list option"
  geoCodesCachedAt :: int

text \<open>The module as loaded: nothing cached, all timestamps zero.\<close>

definition initialState :: "int \<Rightarrow> state" where
  "initialState t =
     \<lparr>clock = t, lastRequestTime = 0, cachedToc = None, tocCachedAt = 0,
      cachedGeoCodes = None, geoCodesCachedAt = 0\<rparr>"

record request =
  url :: jsstring
  headers :: "(jsstring \<times> jsstring) list"

record response =
  status :: nat
  statusText :: jsstring
  body :: jsstring

text \<open>\<open>res.ok\<close> of the Fetch API: the status is in the range 200 to 299.\<close>

definition ok :: "response \<Rightarrow> bool" where
  "ok res \<longleftrightarrow> 200 \<le> status res \<and> status res \<le> 299"

datatype fetch_result = NetworkFailure jsstring | Response response

text \<open>
  What lies outside the module: the upstream server, which answers a request dispatched
  at a given time; the timer, which may fire later than asked (\<open>timerLag\<close>, by the time
  the timer was set) but never earlier; and the time an HTTP call takes.
\<close>

record world =
  server :: "int \<Rightarrow> request \<Rightarrow> fetch_result"
  timerLag :: "int \<Rightarrow> nat"
  latency :: "int \<Rightarrow> nat"

definition MIN_REQUEST_INTERVAL_MS :: int where
  "MIN_REQUEST_INTERVAL_MS = 350"

definition TOC_CACHE_DURATION_MS :: int where
  "TOC_CACHE_DURATION_MS = 60 * 60 * 1000"

text \<open>\<open>await new Promise((resolve) => setTimeout(resolve, ms))\<close>\<close>

definition sleep :: "world \<Rightarrow> int \<Rightarrow> state \<Rightarrow> state" where
  "sleep w ms st = st\<lparr>clock := clock st + ms + int (timerLag w (clock st))\<rparr>"

definition rateLimitedFetch ::
  "world \<Rightarrow> jsstring \<Rightarrow> (jsstring \<times> jsstring) list \<Rightarrow> state \<Rightarrow> fetch_result \<times> state" where
  "rateLimitedFetch w u hdrs st =
     (let now = clock st;
          elapsed = now - lastRequestTime st;
          st1 = (if elapsed < MIN_REQUEST_INTERVAL_MS
                 then sleep w (MIN_REQUEST_INTERVAL_MS - elapsed) st else st);
          st2 = st1\<lparr>lastRequestTime := clock st1\<rparr>;
          req = \<lparr>url = u,
                 headers = setAll [(str ''Accept-Encoding'', str ''gzip, deflate''),
                                   (str ''User-Agent'', str ''Eurostat-MCP/1.0'')] hdrs\<rparr>
      in (server w (clock st2) req, st2\<lparr>clock := clock st2 + int (latency w (clock st2))\<rparr>))"

text \<open>
  A run of calls one after the other, each made some time (\<open>gap\<close>) after the one before
  has returned; the result lists the dispatch timestamps in order.
\<close>

fun fetchSequence :: "world \<Rightarrow> state \<Rightarrow> (nat \<times> jsstring) list \<Rightarrow> int list" where
  "fetchSequence w st [] = []"
| "fetchSequence w st ((gap, u) # calls) =
     (let (res, st') = rateLimitedFetch w u [] (st\<lparr>clock := clock st + int gap\<rparr>)
      in lastRequestTime st' # fetchSequence w st' calls)"

section \<open>Table of contents and dataset search\<close>

datatype error = TransportError jsstring | Error jsstring | SyntaxError jsstring | TypeError

definition BASE_URL :: jsstring where
  "BASE_URL = str ''https://ec.europa.eu/eurostat/api/dissemination''"

definition SDMX_URL :: jsstring where
  "SDMX_URL = BASE_URL @ str ''/sdmx/2.1''"

definition CATALOGUE_URL :: jsstring where
  "CATALOGUE_URL = BASE_URL @ str ''/catalogue''"

text \<open>The address of the catalog in a language, and that of the list of geo codes.\<close>

definition tocUrl :: "jsstring \<Rightarrow> jsstring" where
  "tocUrl lang = CATALOGUE_URL @ str ''/toc/txt?lang='' @ lang"

definition geoUrl :: jsstring where
  "geoUrl = SDMX_URL @ str ''/codelist/ESTAT/GEO/latest?compressed=false''"

text \<open>The headers that the two SDMX requests pass in \<open>options\<close>.\<close>

definition sdmxHeaders :: "(jsstring \<times> jsstring) list" where
  "sdmxHeaders = [(str ''Accept'', str ''application/vnd.sdmx.structure+xml;version=2.1'')]"

text \<open>\<open>parts[k] || ""\<close> and \<open>parts[k] || undefined\<close>: a missing or empty part is replaced.\<close>

definition partOr :: "jsstring list \<Rightarrow> nat \<Rightarrow> jsstring \<Rightarrow> jsstring" where
  "partOr parts k d = (if k < length parts \<and> parts ! k \<noteq> [] then parts ! k else d)"

definition partOpt :: "jsstring list \<Rightarrow> nat \<Rightarrow> jsstring option" where
  "partOpt parts k = (if k < length parts \<and> parts ! k \<noteq> [] then Some (parts ! k) else None)"

text \<open>The body of the parsing loop of \<open>fetchToc\<close>, for one line.\<close>

definition parseTocLine :: "jsstring \<Rightarrow> TocEntry option" where
  "parseTocLine raw =
     (let line = trim raw in
      if line = [] then None
      else let parts = splitOn 9 [] line in
        if length parts \<ge> 2
        then Some \<lparr>toc_code = partOr parts 1 [], toc_title = partOr parts 0 [],
                   toc_type = partOr parts 2 [], toc_lastUpdate = partOpt parts 3,
                   toc_dataStart = partOpt parts 5, toc_dataEnd = partOpt parts 6,
                   toc_values = partOpt parts 7\<rparr>
        else None)"

text \<open>The loop starts at the second line: the first one is the header.\<close>

definition parseToc :: "jsstring \<Rightarrow> TocEntry list" where
  "parseToc text = List.map_filter parseTocLine (drop 1 (splitOn 10 [] text))"

definition fetchToc :: "world \<Rightarrow> jsstring \<Rightarrow> state \<Rightarrow> (error + TocEntry list) \<times> state" where
  "fetchToc w lang st =
     (let now = clock st in
      if cachedToc st \<noteq> None \<and> now - tocCachedAt st < TOC_CACHE_DURATION_MS
      then (Inr (the (cachedToc st)), st)
      else
        (case rateLimitedFetch w (tocUrl lang) [] st of
           (NetworkFailure e, st1) \<Rightarrow> (Inl (TransportError e), st1)
         | (Response res, st1) \<Rightarrow>
             if \<not> ok res
             then (Inl (Error (str ''Failed to fetch TOC: '' @ natToString (status res)
                                @ str '' '' @ statusText res)), st1)
             else let entries = parseToc (body res)
                  in (Inr entries, st1\<lparr>cachedToc := Some entries, tocCachedAt := now\<rparr>)))"

text \<open>
  The score of one entry, as the callback of \<open>toc.map\<close> computes it: a counter that the
  loop over the terms increments, then the bonus of an exact code.
\<close>

definition score :: "unicode \<Rightarrow> jsstring list \<Rightarrow> jsstring \<Rightarrow> TocEntry \<Rightarrow> nat" where
  "score u terms lowerQuery entry =
     (let searchable = toLowerCase u (toc_title entry @ str '' '' @ toc_code entry);
          counted = foldl (\<lambda>s term. if jsIncludes searchable term then s + 1 else s) 0 terms
      in if toLowerCase u (toc_code entry) = lowerQuery then counted + 100 else counted)"

text \<open>\<open>lowerQuery.split(/\s+/).filter(Boolean)\<close>: the empty pieces are dropped.\<close>

definition queryTerms :: "jsstring \<Rightarrow> jsstring list" where
  "queryTerms lowerQuery = filter (\<lambda>t. t \<noteq> []) (splitWs [] lowerQuery)"

text \<open>
  The ranking of \<open>searchDatasets\<close> on a loaded catalog. \<open>Array.prototype.sort\<close> is
  stable, and the comparator \<open>b.score - a.score\<close> orders by descending score: the result
  is the stable sort by the negated score.
\<close>

definition rankEntries :: "unicode \<Rightarrow> TocEntry list \<Rightarrow> jsstring \<Rightarrow> int \<Rightarrow> TocEntry list" where
  "rankEntries u toc query limit =
     (let lowerQuery = toLowerCase u query;
          terms = queryTerms lowerQuery;
          scored = slice0
            (sort_key (\<lambda>item. - int (snd item))
               (filter (\<lambda>item. snd item > 0)
                  (map (\<lambda>entry. (entry, score u terms lowerQuery entry)) toc)))
            limit
      in map fst scored)"

definition searchDatasets ::
  "world \<Rightarrow> unicode \<Rightarrow> jsstring \<Rightarrow> jsstring \<Rightarrow> int \<Rightarrow> state \<Rightarrow> (error + TocEntry list) \<times> state" where
  "searchDatasets w u query lang limit st =
     (case fetchToc w lang st of
        (Inl e, st') \<Rightarrow> (Inl e, st')
      | (Inr toc, st') \<Rightarrow> (Inr (rankEntries u toc query limit), st'))"

text \<open>The score that an entry gets in a search for \<open>query\<close>.\<close>

definition entryScore :: "unicode \<Rightarrow> jsstring \<Rightarrow> TocEntry \<Rightarrow> nat" where
  "entryScore u query e = score u (queryTerms (toLowerCase u query)) (toLowerCase u query) e"

text \<open>
  The one law of \<open>toLowerCase\<close> that the rank of an exact code may need: the lower-case
  form of the searchable text of the entry contains the lower-case form of its code.
  It holds of every \<open>toLowerCase\<close> that maps each code unit by itself; that of
  ECMAScript looks at the neighbours of a capital sigma only, and the space before the
  code ends what it looks at.
\<close>

definition codeCaseKept :: "unicode \<Rightarrow> TocEntry \<Rightarrow> bool" where
  "codeCaseKept u e \<longleftrightarrow>
     sublist (toLowerCase u (toc_code e))
             (toLowerCase u (toc_title e @ str '' '' @ toc_code e))"

text \<open>
  The score as the specification words it, for comparison: the terms are looked up in
  the title directly followed by the code.
\<close>

definition scoreAsSpecified :: "unicode \<Rightarrow> jsstring \<Rightarrow> TocEntry \<Rightarrow> nat" where
  "scoreAsSpecified u query entry =
     length (filter (jsIncludes (toLowerCase u (toc_title entry @ toc_code entry)))
                    (queryTerms (toLowerCase u query)))
     + (if toLowerCase u (toc_code entry) = toLowerCase u query then 100 else 0)"

section \<open>Geo code resolution\<close>

text \<open>
  The level of a geo code, lines 476 to 481 of \<open>resolveGeoCode\<close>:
  \<^verbatim>\<open>
  let level = "other";
  if (code.length === 2) level = "country";
  else if (code.length === 3) level = "nuts1";
  else if (code.length === 4) level = "nuts2";
  else if (code.length === 5) level = "nuts3";
  else if (code.startsWith("EU") || code.startsWith("EA")) level = "aggregate";
  \<close>
\<close>

definition geoLevel :: "jsstring \<Rightarrow> jsstring" where
  "geoLevel code =
     (if length code = 2 then str ''country''
      else if length code = 3 then str ''nuts1''
      else if length code = 4 then str ''nuts2''
      else if length code = 5 then str ''nuts3''
      else if startsWith code (str ''EU'') \<or> startsWith code (str ''EA'') then str ''aggregate''
      else str ''other'')"

text \<open>
  The regular expressions of the module run on the engine of the JavaScript runtime.
  The engine is a parameter: each field gives, for a text, what the iteration of one of
  the module's expressions captures, in document order. \<open>codeMatches\<close> stands for the
  expression \<open><s:Code id="..."> ... <c:Name xml:lang="en">...</c:Name>\<close>, which both
  \<open>getDatasetStructure\<close> and \<open>resolveGeoCode\<close> use. The expression for a concept is built
  from the dimension id at run time, and \<open>new RegExp\<close> raises a \<open>SyntaxError\<close> when the
  id does not make a valid pattern.
\<close>

datatype regex_result = InvalidPattern jsstring | NoMatch | Match jsstring

record regex_engine =
  titleMatch :: "jsstring \<Rightarrow> jsstring option"
  dimMatches :: "jsstring \<Rightarrow> (jsstring \<times> jsstring) list"
  timeDimMatch :: "jsstring \<Rightarrow> jsstring option"
  codelistMatches :: "jsstring \<Rightarrow> (jsstring \<times> jsstring) list"
  codeMatches :: "jsstring \<Rightarrow> (jsstring \<times> jsstring) list"
  conceptMatch :: "jsstring \<Rightarrow> jsstring \<Rightarrow> regex_result"

text \<open>The local function \<open>normalize\<close> of \<open>fuzzyMatch\<close>; the marks are \<open>U+0300\<close> to \<open>U+036F\<close>.\<close>

definition normalize :: "unicode \<Rightarrow> jsstring \<Rightarrow> jsstring" where
  "normalize u s =
     filter (\<lambda>c. \<not> (768 \<le> c \<and> c \<le> 879)) (normalizeNFD u (toLowerCase u s))"

definition fuzzyMatch :: "unicode \<Rightarrow> jsstring \<Rightarrow> jsstring \<Rightarrow> bool" where
  "fuzzyMatch u text query = jsIncludes (normalize u text) (normalize u query)"

text \<open>The predicate of the \<open>filter\<close> call of \<open>resolveGeoCode\<close>.\<close>

definition geoMatches :: "unicode \<Rightarrow> jsstring \<Rightarrow> GeoCode \<Rightarrow> bool" where
  "geoMatches u query gc =
     (let lowerQuery = toLowerCase u query in
      toLowerCase u (geo_code gc) = lowerQuery
      \<or> jsIncludes (toLowerCase u (geo_name gc)) lowerQuery
      \<or> fuzzyMatch u (geo_name gc) query)"

text \<open>The loop over the matches of the code expression, lines 473 to 483.\<close>

definition parseGeoCodes :: "regex_engine \<Rightarrow> jsstring \<Rightarrow> GeoCode list" where
  "parseGeoCodes rx xml =
     map (\<lambda>(c, n). \<lparr>geo_code = c, geo_name = n, geo_level = geoLevel c\<rparr>) (codeMatches rx xml)"

text \<open>
  \<open>resolveGeoCode\<close>. The non-null assertion \<open>cachedGeoCodes!\<close> is not checked at run
  time: on \<open>null\<close> the call of \<open>filter\<close> would raise a \<open>TypeError\<close>.
\<close>

definition resolveGeoCode ::
  "world \<Rightarrow> regex_engine \<Rightarrow> unicode \<Rightarrow> jsstring \<Rightarrow> state \<Rightarrow> (error + GeoCode list) \<times> state" where
  "resolveGeoCode w rx u query st =
     (let now = clock st;
          (failure, st') =
            (if cachedGeoCodes st = None \<or> now - geoCodesCachedAt st > TOC_CACHE_DURATION_MS
             then
               (case rateLimitedFetch w geoUrl sdmxHeaders st of
                  (NetworkFailure e, st1) \<Rightarrow> (Some (TransportError e), st1)
                | (Response res, st1) \<Rightarrow>
                    if ok res
                    then (None, st1\<lparr>cachedGeoCodes := Some (parseGeoCodes rx (body res)),
                                     geoCodesCachedAt := now\<rparr>)
                    else (Some (Error (str ''Failed to fetch GEO codelist: ''
                                       @ natToString (status res))), st1))
             else (None, st))
      in case failure of
           Some e \<Rightarrow> (Inl e, st')
         | None \<Rightarrow>
             (case cachedGeoCodes st' of
                None \<Rightarrow> (Inl TypeError, st')
              | Some codes \<Rightarrow> (Inr (slice0 (filter (geoMatches u query) codes) 20), st')))"

section \<open>Dataset structure\<close>

record CodeItem =
  item_id :: jsstring
  item_name :: jsstring

record DatasetDimension =
  dim_id :: jsstring
  dim_name :: jsstring
  dim_values :: "CodeItem list"

record DatasetStructure =
  ds_datasetCode :: jsstring
  ds_title :: jsstring
  ds_dimensions :: "DatasetDimension list"

text \<open>
  The loop \<open>for (const [dimId, clId] of dimCodelistMap)\<close>: it stops at the first
  dimension id that \<open>new RegExp\<close> rejects. \<open>codelistMap.get(clId) || []\<close> is the empty
  list only for a missing key, an array being truthy.
\<close>

fun buildDimensions ::
  "regex_engine \<Rightarrow> jsstring \<Rightarrow> (jsstring \<times> CodeItem list) list \<Rightarrow> (jsstring \<times> jsstring) list
   \<Rightarrow> error + DatasetDimension list" where
  "buildDimensions rx xml codelistMap [] = Inr []"
| "buildDimensions rx xml codelistMap ((dimId, clId) # rest) =
     (let vals = (case map_of codelistMap clId of Some v \<Rightarrow> v | None \<Rightarrow> []) in
      case conceptMatch rx dimId xml of
        InvalidPattern e \<Rightarrow> Inl (SyntaxError e)
      | r \<Rightarrow>
          (case buildDimensions rx xml codelistMap rest of
             Inl e \<Rightarrow> Inl e
           | Inr ds \<Rightarrow>
               Inr (\<lparr>dim_id = dimId,
                     dim_name = (case r of Match n \<Rightarrow> n | _ \<Rightarrow> dimId),
                     dim_values = take 200 vals\<rparr> # ds)))"

definition timeDimension :: "jsstring \<Rightarrow> DatasetDimension" where
  "timeDimension tid =
     \<lparr>dim_id = tid, dim_name = str ''Time period'',
      dim_values =
        [\<lparr>item_id = str ''hint'',
          item_name =
            str ''Use sinceTimePeriod/untilTimePeriod or specific years like 2020, 2021''\<rparr>]\<rparr>"

text \<open>
  What \<open>getDatasetStructure\<close> does with the text of a successful response, lines 163
  to 235.
\<close>

definition decodeStructure ::
  "regex_engine \<Rightarrow> unicode \<Rightarrow> jsstring \<Rightarrow> jsstring \<Rightarrow> error + DatasetStructure" where
  "decodeStructure rx u datasetCode xml =
     (let title = (case titleMatch rx xml of Some t \<Rightarrow> t | None \<Rightarrow> datasetCode);
          dimCodelistMap = setAll [] (dimMatches rx xml);
          codelistMap = setAll []
            (map (\<lambda>(clId, clContent).
                    (clId, map (\<lambda>(i, n). \<lparr>item_id = i, item_name = n\<rparr>)
                               (codeMatches rx clContent)))
                 (codelistMatches rx xml))
      in case buildDimensions rx xml codelistMap dimCodelistMap of
           Inl e \<Rightarrow> Inl e
         | Inr dims \<Rightarrow>
             Inr \<lparr>ds_datasetCode = toUpperCase u datasetCode, ds_title = title,
                  ds_dimensions =
                    dims @ (case timeDimMatch rx xml of
                              Some tid \<Rightarrow> [timeDimension tid] | None \<Rightarrow> [])\<rparr>)"

definition structureUrl :: "unicode \<Rightarrow> jsstring \<Rightarrow> jsstring" where
  "structureUrl u datasetCode =
     SDMX_URL @ str ''/dataflow/ESTAT/'' @ toUpperCase u datasetCode
       @ str ''/1.0?references=descendants&detail=referencepartial&compressed=false''"

definition getDatasetStructure ::
  "world \<Rightarrow> regex_engine \<Rightarrow> unicode \<Rightarrow> jsstring \<Rightarrow> state \<Rightarrow> (error + DatasetStructure) \<times> state" where
  "getDatasetStructure w rx u datasetCode st =
     (case rateLimitedFetch w (structureUrl u datasetCode) sdmxHeaders st of
        (NetworkFailure e, st1) \<Rightarrow> (Inl (TransportError e), st1)
      | (Response res, st1) \<Rightarrow>
          if \<not> ok res
          then (Inl (Error (str ''Failed to fetch dataset structure for '' @ datasetCode
                             @ str '': '' @ natToString (status res) @ str '' ''
                             @ statusText res)), st1)
          else (decodeStructure rx u datasetCode (body res), st1))"

section \<open>Data retrieval\<close>

text \<open>
  The parsed JSON-stat document. An object that the code replaces by \<open>{}\<close> when it is
  missing (\<open>json.dimension\<close>, \<open>dim.category\<close>, \<open>category.index\<close>, \<open>category.label\<close>,
  \<open>json.value\<close>) is a map or a list that is then empty, and likewise the arrays
  \<open>json.id\<close> and \<open>json.size\<close>. A string that may be missing is an option. The index
  of a category lists the entries in the order of \<open>Object.entries\<close>. The sizes are
  non-negative integers, and the observations are of a type \<open>'v\<close> of numbers that the
  model leaves open; \<open>None\<close> among them is \<open>null\<close>.
\<close>

record json_dimension =
  jd_label :: "jsstring option"
  jd_index :: "(jsstring \<times> int) list"
  jd_labels :: "jsstring \<rightharpoonup> jsstring"

record 'v json_stat =
  js_label :: "jsstring option"
  js_source :: "jsstring option"
  js_updated :: "jsstring option"
  js_id :: "jsstring list"
  js_size :: "nat list"
  js_dimension :: "jsstring \<rightharpoonup> json_dimension"
  js_value :: "jsstring \<rightharpoonup> 'v option"

record Category =
  cat_id :: jsstring
  cat_label :: jsstring

record DataDimension =
  dd_id :: jsstring
  dd_label :: jsstring
  dd_categories :: "Category list"

record 'v EurostatDataResult =
  res_title :: jsstring
  res_source :: jsstring
  res_updated :: jsstring
  res_dimensions :: "DataDimension list"
  res_values :: "'v option list"
  res_formattedData :: jsstring

text \<open>\<open>s || d\<close> for a string that may be missing: the empty string is falsy too.\<close>

definition orElse :: "jsstring option \<Rightarrow> jsstring \<Rightarrow> jsstring" where
  "orElse s d = (case s of None \<Rightarrow> d | Some x \<Rightarrow> if x = [] then d else x)"

text \<open>
  The numbers that the index computation can produce: a division by a size of zero
  gives \<open>Infinity\<close> or \<open>NaN\<close>, and a size read past the end of \<open>sizes\<close> is \<open>undefined\<close>,
  which makes the result \<open>NaN\<close>. The second argument is \<open>sizes[d]\<close>, with \<open>None\<close> for
  \<open>undefined\<close>.
\<close>

datatype jsnum = Fin nat | Infinity | NaN

fun jsMod :: "jsnum \<Rightarrow> nat option \<Rightarrow> jsnum" where
  "jsMod (Fin a) (Some s) = (if s = 0 then NaN else Fin (a mod s))"
| "jsMod _ _ = NaN"

fun jsFloorDiv :: "jsnum \<Rightarrow> nat option \<Rightarrow> jsnum" where
  "jsFloorDiv (Fin a) (Some s) =
     (if s = 0 then (if a = 0 then NaN else Infinity) else Fin (a div s))"
| "jsFloorDiv Infinity (Some s) = Infinity"
| "jsFloorDiv _ _ = NaN"

definition sizeAt :: "nat list \<Rightarrow> nat \<Rightarrow> nat option" where
  "sizeAt sizes d = (if d < length sizes then Some (sizes ! d) else None)"

fun numToString :: "jsnum \<Rightarrow> jsstring" where
  "numToString (Fin n) = natToString n"
| "numToString Infinity = str ''Infinity''"
| "numToString NaN = str ''NaN''"

text \<open>
  The inner loop of \<open>formatJsonStatData\<close>, lines 377 to 382. The first argument counts
  the dimensions still to do: the loop variable \<open>d\<close> is one less. \<open>unshift\<close> puts the
  index in front of those found so far.
  \<^verbatim>\<open>
  for (let d = dimensions.length - 1; d >= 0; d--) {
    indices.unshift(remainder % sizes[d]);
    remainder = Math.floor(remainder / sizes[d]);
  }
  \<close>
\<close>

fun cellIndices :: "nat list \<Rightarrow> nat \<Rightarrow> jsnum \<Rightarrow> jsnum list \<Rightarrow> jsnum list" where
  "cellIndices sizes 0 remainder indices = indices"
| "cellIndices sizes (Suc d) remainder indices =
     cellIndices sizes d (jsFloorDiv remainder (sizeAt sizes d))
       (jsMod remainder (sizeAt sizes d) # indices)"

text \<open>\<open>cat ? cat.label : `[${idx}]`\<close> with \<open>cat = dimensions[d].categories[idx]\<close>\<close>

definition cellLabel :: "DataDimension \<Rightarrow> jsnum \<Rightarrow> jsstring" where
  "cellLabel dim idx =
     (case idx of
        Fin k \<Rightarrow> if k < length (dd_categories dim) then cat_label (dd_categories dim ! k)
                 else str ''['' @ numToString idx @ str '']''
      | _ \<Rightarrow> str ''['' @ numToString idx @ str '']'')"

text \<open>The text row of position \<open>i\<close> holding the number \<open>v\<close>; \<open>showNum\<close> prints a number.\<close>

definition cellRow ::
  "('v \<Rightarrow> jsstring) \<Rightarrow> DataDimension list \<Rightarrow> nat list \<Rightarrow> nat \<Rightarrow> 'v \<Rightarrow> jsstring" where
  "cellRow showNum dimensions sizes i v =
     (let indices = cellIndices sizes (length dimensions) (Fin i) [];
          labels = map (\<lambda>(idx, d). cellLabel (dimensions ! d) idx)
                       (zip indices [0..<length indices])
      in join (str '' | '') labels @ str '' | '' @ showNum v)"

text \<open>
  The outer loop of \<open>formatJsonStatData\<close>, from position \<open>i\<close> on: a position holding
  \<open>null\<close> is skipped by \<open>continue\<close>, any other one pushes its row onto \<open>lines\<close>.
\<close>

function pushRows ::
  "('v \<Rightarrow> jsstring) \<Rightarrow> DataDimension list \<Rightarrow> nat list \<Rightarrow> 'v option list \<Rightarrow> nat
   \<Rightarrow> jsstring list \<Rightarrow> jsstring list" where
  "pushRows showNum dimensions sizes vals i lines =
     (if i < length vals
      then (case vals ! i of
              None \<Rightarrow> pushRows showNum dimensions sizes vals (Suc i) lines
            | Some v \<Rightarrow>
                pushRows showNum dimensions sizes vals (Suc i)
                  (lines @ [cellRow showNum dimensions sizes i v]))
      else lines)"
  by pat_completeness auto
termination
  by (relation "measure (\<lambda>(showNum, dimensions, sizes, vals, i, lines). length vals - i)") auto

declare pushRows.simps [simp del]

definition formatJsonStatData ::
  "('v \<Rightarrow> jsstring) \<Rightarrow> DataDimension list \<Rightarrow> nat list \<Rightarrow> 'v option list \<Rightarrow> jsstring" where
  "formatJsonStatData showNum dimensions sizes vals =
     (if length dimensions = 0 \<or> length vals = 0 then str ''No data available.''
      else
        (let header = join (str '' | '') (map dd_label dimensions) @ str '' | Value'';
             lines = pushRows showNum dimensions sizes vals 0
                       [header, replicate (length header) 45]
         in join [10] lines))"

text \<open>
  The categories of one dimension, the callback of \<open>dimIds.map\<close>: the entries of the
  index sorted by their numbers (a stable sort), each with its label or, failing that,
  its id.
\<close>

definition decodeDimension :: "(jsstring \<rightharpoonup> json_dimension) \<Rightarrow> jsstring \<Rightarrow> DataDimension" where
  "decodeDimension dimensionsData dimId =
     (let dim = (case dimensionsData dimId of
                   Some d \<Rightarrow> d
                 | None \<Rightarrow> \<lparr>jd_label = None, jd_index = [], jd_labels = Map.empty\<rparr>);
          sortedEntries = sort_key snd (jd_index dim)
      in \<lparr>dd_id = dimId, dd_label = orElse (jd_label dim) dimId,
          dd_categories =
            map (\<lambda>(catId, n). \<lparr>cat_id = catId, cat_label = orElse (jd_labels dim catId) catId\<rparr>)
                sortedEntries\<rparr>)"

text \<open>
  The dense array of \<open>getDatasetData\<close>, lines 333 to 338:
  \<^verbatim>\<open>
  const totalSize = dimSizes.reduce((a, b) => a * b, 1);
  for (let i = 0; i < totalSize; i++) {
    values.push(rawValues[String(i)] !== undefined ? rawValues[String(i)] : null);
  }
  \<close>
\<close>

function pushValues ::
  "(jsstring \<rightharpoonup> 'v option) \<Rightarrow> nat \<Rightarrow> nat \<Rightarrow> 'v option list \<Rightarrow> 'v option list" where
  "pushValues rawValues totalSize i vals =
     (if i < totalSize
      then pushValues rawValues totalSize (Suc i)
             (vals @ [case rawValues (natToString i) of Some v \<Rightarrow> v | None \<Rightarrow> None])
      else vals)"
  by pat_completeness auto
termination
  by (relation "measure (\<lambda>(rawValues, totalSize, i, vals). totalSize - i)") auto

declare pushValues.simps [simp del]

definition denseValues :: "(jsstring \<rightharpoonup> 'v option) \<Rightarrow> nat list \<Rightarrow> 'v option list" where
  "denseValues rawValues dimSizes =
     pushValues rawValues (foldl (\<lambda>a b. a * b) 1 dimSizes) 0 []"

text \<open>What \<open>getDatasetData\<close> does with the document of a successful response.\<close>

definition decodeDataResponse ::
  "('v \<Rightarrow> jsstring) \<Rightarrow> jsstring \<Rightarrow> 'v json_stat \<Rightarrow> 'v EurostatDataResult" where
  "decodeDataResponse showNum datasetCode json =
     (let dimensions = map (decodeDimension (js_dimension json)) (js_id json);
          vals = denseValues (js_value json) (js_size json)
      in \<lparr>res_title = orElse (js_label json) datasetCode,
          res_source = orElse (js_source json) (str ''Eurostat''),
          res_updated = orElse (js_updated json) [],
          res_dimensions = dimensions,
          res_values = vals,
          res_formattedData = formatJsonStatData showNum dimensions (js_size json) vals\<rparr>)"

text \<open>
  The rest of \<open>getDatasetData\<close> rests on the runtime: \<open>URLSearchParams\<close> encodes the
  names and values of the query, \<open>res.json()\<close> parses the document or raises a
  \<open>SyntaxError\<close>, and on a refused request the \<open>try\<close> block reads \<open>error.label\<close> and
  \<open>warning.label\<close> from the parsed body, or raises when the body is no JSON or is
  \<open>null\<close>. These three are parameters. A filter is one value or an array of values.
\<close>

datatype filter_value = Single jsstring | Multiple "jsstring list"

record 'v json_runtime =
  formEncode :: "jsstring \<Rightarrow> jsstring"
  parseDocument :: "jsstring \<Rightarrow> jsstring + 'v json_stat"
  parseErrorLabels :: "jsstring \<Rightarrow> (jsstring option \<times> jsstring option) option"

definition STATISTICS_URL :: jsstring where
  "STATISTICS_URL = BASE_URL @ str ''/statistics/1.0/data''"

definition queryParams ::
  "unicode \<Rightarrow> jsstring \<Rightarrow> (jsstring \<times> filter_value) list \<Rightarrow> jsstring \<Rightarrow> (jsstring \<times> jsstring) list" where
  "queryParams u fmt filters lang =
     [(str ''format'', fmt), (str ''lang'', toUpperCase u lang)]
     @ concat (map (\<lambda>(key, val). case val of
                                      Single v \<Rightarrow> [(key, v)]
                                    | Multiple vs \<Rightarrow> map (\<lambda>v. (key, v)) vs)
                   filters)"

definition dataUrl ::
  "'v json_runtime \<Rightarrow> unicode \<Rightarrow> jsstring \<Rightarrow> jsstring \<Rightarrow> (jsstring \<times> filter_value) list \<Rightarrow> jsstring
   \<Rightarrow> jsstring" where
  "dataUrl rt u fmt datasetCode filters lang =
     STATISTICS_URL @ str ''/'' @ toUpperCase u datasetCode @ str ''?''
     @ join (str ''&'')
         (map (\<lambda>(k, v). formEncode rt k @ str ''='' @ formEncode rt v)
              (queryParams u fmt filters lang))"

definition getDatasetUrl ::
  "'v json_runtime \<Rightarrow> unicode \<Rightarrow> jsstring \<Rightarrow> (jsstring \<times> filter_value) list \<Rightarrow> jsstring \<Rightarrow> jsstring" where
  "getDatasetUrl rt u datasetCode filters lang = dataUrl rt u (str ''TSV'') datasetCode filters lang"

text \<open>\<open>if (label) errorMsg += `: ${label}`\<close>\<close>

definition labelSuffix :: "jsstring option \<Rightarrow> jsstring" where
  "labelSuffix l = (case l of None \<Rightarrow> [] | Some x \<Rightarrow> if x = [] then [] else str '': '' @ x)"

definition getDatasetData ::
  "world \<Rightarrow> 'v json_runtime \<Rightarrow> unicode \<Rightarrow> ('v \<Rightarrow> jsstring) \<Rightarrow> jsstring \<Rightarrow> (jsstring \<times> filter_value) list
   \<Rightarrow> jsstring \<Rightarrow> state \<Rightarrow> (error + 'v EurostatDataResult) \<times> state" where
  "getDatasetData w rt u showNum datasetCode filters lang st =
     (case rateLimitedFetch w (dataUrl rt u (str ''JSON'') datasetCode filters lang) [] st of
        (NetworkFailure e, st1) \<Rightarrow> (Inl (TransportError e), st1)
      | (Response res, st1) \<Rightarrow>
          if \<not> ok res
          then
            (let errorBody = body res;
                 errorMsg = str ''Eurostat API error '' @ natToString (status res)
             in (Inl (Error
                   (case parseErrorLabels rt errorBody of
                      Some (errorLabel, warningLabel) \<Rightarrow>
                        errorMsg @ labelSuffix errorLabel @ labelSuffix warningLabel
                    | None \<Rightarrow>
                        if errorBody \<noteq> [] then errorMsg @ str '': '' @ take 500 errorBody
                        else errorMsg)),
                 st1))
          else
            (case parseDocument rt (body res) of
               Inl msg \<Rightarrow> (Inl (SyntaxError msg), st1)
             | Inr json \<Rightarrow> (Inr (decodeDataResponse showNum datasetCode json), st1)))"

definition previewData ::
  "world \<Rightarrow> 'v json_runtime \<Rightarrow> unicode \<Rightarrow> ('v \<Rightarrow> jsstring) \<Rightarrow> jsstring \<Rightarrow> jsstring \<Rightarrow> state
   \<Rightarrow> (error + 'v EurostatDataResult) \<times> state" where
  "previewData w rt u showNum datasetCode lang st =
     getDatasetData w rt u showNum datasetCode [(str ''lastTimePeriod'', Single (str ''1''))] lang st"

text \<open>
  The two directions as the specification words them, for comparison. Decoding takes
  \<open>i mod size[d]\<close> and then \<open>i /= size[d]\<close>, from the last dimension inward
  (\<open>decodeFromLast\<close> receives the sizes last first). Encoding is the sum over \<open>d\<close> of
  \<open>idx[d]\<close> times the product of the sizes after \<open>d\<close>.
\<close>

fun decodeFromLast :: "nat list \<Rightarrow> nat \<Rightarrow> nat list" where
  "decodeFromLast [] r = []"
| "decodeFromLast (x # xs) r = r mod x # decodeFromLast xs (r div x)"

definition decodeIndex :: "nat list \<Rightarrow> nat \<Rightarrow> nat list" where
  "decodeIndex s i = rev (decodeFromLast (rev s) i)"

definition encodeIndex :: "nat list \<Rightarrow> nat list \<Rightarrow> nat" where
  "encodeIndex s idx = sum_list (map (\<lambda>d. idx ! d * prod_list (drop (Suc d) s)) [0..<length s])"

section \<open>Example documents\<close>

text \<open>
  A runtime for the examples. On a text of the Basic Latin and Latin-1 Supplement
  blocks it does what ECMAScript prescribes: \<open>A\<close> to \<open>Z\<close> and \<open>U+00C0\<close> to \<open>U+00DE\<close>
  (without the multiplication sign) have small letters 32 further on; three small
  letters have capitals outside the block or of two letters; and a precomposed letter
  decomposes into its base letter and a combining mark, a small letter as its capital
  does. Every other code unit is left as it is, so the examples stay within the two
  blocks.
\<close>

definition lowerUnit :: "nat \<Rightarrow> nat" where
  "lowerUnit c =
     (if (65 \<le> c \<and> c \<le> 90) \<or> (192 \<le> c \<and> c \<le> 222 \<and> c \<noteq> 215) then c + 32 else c)"

definition upperUnit :: "nat \<Rightarrow> nat list" where
  "upperUnit c =
     (if (97 \<le> c \<and> c \<le> 122) \<or> (224 \<le> c \<and> c \<le> 254 \<and> c \<noteq> 247) then [c - 32]
      else if c = 223 then [83, 83]
      else if c = 255 then [376]
      else if c = 181 then [924]
      else [c])"

definition latin1Capitals :: "(nat \<times> nat \<times> nat) list" where
  "latin1Capitals =
     [(192, 65, 768), (193, 65, 769), (194, 65, 770), (195, 65, 771), (196, 65, 776),
      (197, 65, 778), (199, 67, 807),
      (200, 69, 768), (201, 69, 769), (202, 69, 770), (203, 69, 776),
      (204, 73, 768), (205, 73, 769), (206, 73, 770), (207, 73, 776),
      (209, 78, 771),
      (210, 79, 768), (211, 79, 769), (212, 79, 770), (213, 79, 771), (214, 79, 776),
      (217, 85, 768), (218, 85, 769), (219, 85, 770), (220, 85, 776),
      (221, 89, 769)]"

definition nfdUnit :: "nat \<Rightarrow> nat list" where
  "nfdUnit c =
     (case map_of latin1Capitals c of
        Some (b, m) \<Rightarrow> [b, m]
      | None \<Rightarrow>
          (case (if 32 \<le> c then map_of latin1Capitals (c - 32) else None) of
             Some (b, m) \<Rightarrow> [b + 32, m]
           | None \<Rightarrow> if c = 255 then [121, 776] else [c]))"

definition latin1 :: unicode where
  "latin1 =
     \<lparr>toLowerCase = map lowerUnit,
      toUpperCase = (\<lambda>s. concat (map upperUnit s)),
      normalizeNFD = (\<lambda>s. concat (map nfdUnit s))\<rparr>"

text \<open>
  The scenario of the specification: \<open>geo\<close> (DE, FR) by \<open>time\<close> (2020, 2021, 2022),
  with the observations \<open>{"0": 100, "5": 142}\<close>. The index of \<open>geo\<close> lists FR first, to
  show that the categories follow the numbers and not the order of the keys.
\<close>

definition exampleCube :: "nat json_stat" where
  "exampleCube =
     \<lparr>js_label = None, js_source = None, js_updated = None,
      js_id = [str ''geo'', str ''time''], js_size = [2, 3],
      js_dimension =
        [str ''geo'' \<mapsto>
           \<lparr>jd_label = None, jd_index = [(str ''FR'', 1), (str ''DE'', 0)],
            jd_labels = [str ''DE'' \<mapsto> str ''Germany'', str ''FR'' \<mapsto> str ''France'']\<rparr>,
         str ''time'' \<mapsto>
           \<lparr>jd_label = None,
            jd_index = [(str ''2020'', 0), (str ''2021'', 1), (str ''2022'', 2)],
            jd_labels = Map.empty\<rparr>],
      js_value = [str ''0'' \<mapsto> Some 100, str ''5'' \<mapsto> Some 142]\<rparr>"

text \<open>A document whose \<open>size\<close> says two cells while the index of \<open>geo\<close> has one entry.\<close>

definition shortIndexCube :: "nat json_stat" where
  "shortIndexCube =
     \<lparr>js_label = None, js_source = None, js_updated = None,
      js_id = [str ''geo''], js_size = [2],
      js_dimension =
        [str ''geo'' \<mapsto>
           \<lparr>jd_label = None, jd_index = [(str ''DE'', 0)], jd_labels = Map.empty\<rparr>],
      js_value = [str ''0'' \<mapsto> Some 100]\<rparr>"

text \<open>A document without dimensions: one cell, which holds a number.\<close>

definition noDimensionCube :: "nat json_stat" where
  "noDimensionCube =
     \<lparr>js_label = None, js_source = None, js_updated = None,
      js_id = [], js_size = [],
      js_dimension = Map.empty,
      js_value = [str ''0'' \<mapsto> Some 7]\<rparr>"

text \<open>Catalog entries for the examples; only code and title matter.\<close>

definition tocEntry :: "string \<Rightarrow> string \<Rightarrow> TocEntry" where
  "tocEntry c t =
     \<lparr>toc_code = str c, toc_title = str t, toc_type = str ''dataset'', toc_lastUpdate = None,
      toc_dataStart = None, toc_dataEnd = None, toc_values = None\<rparr>"

text \<open>A world for the examples of the fetcher: every call fails in transport.\<close>

definition quietWorld :: world where
  "quietWorld = \<lparr>server = (\<lambda>t req. NetworkFailure []), timerLag = (\<lambda>t. 2), latency = (\<lambda>t. 40)\<rparr>"

text \<open>
  A world whose catalog depends on the language asked for, and that refuses every
  other request; the catalog is a header line and one line, for the dataset \<open>T1\<close>
  with the title given. \<open>loadedEn\<close> is the state after the English catalog was
  loaded at time 1000.
\<close>

definition catalogText :: "string \<Rightarrow> jsstring" where
  "catalogText t = str ''h'' @ [10] @ str t @ [9] @ str ''T1'' @ [9] @ str ''dataset''"

definition twoLanguages :: world where
  "twoLanguages =
     \<lparr>server = (\<lambda>t req.
         if url req = tocUrl (str ''fr'')
         then Response \<lparr>status = 200, statusText = str ''OK'',
                        body = catalogText ''PIB''\<rparr>
         else if url req = tocUrl (str ''en'')
         then Response \<lparr>status = 200, statusText = str ''OK'',
                        body = catalogText ''GDP''\<rparr>
         else Response \<lparr>status = 503, statusText = str ''Busy'', body = []\<rparr>),
      timerLag = (\<lambda>t. 0), latency = (\<lambda>t. 40)\<rparr>"

definition loadedEn :: state where
  "loadedEn =
     \<lparr>clock = 1040, lastRequestTime = 1000, cachedToc = Some [tocEntry ''T1'' ''GDP''],
      tocCachedAt = 1000, cachedGeoCodes = None, geoCodesCachedAt = 0\<rparr>"

text \<open>A world that refuses every request, and a state whose two caches have expired.\<close>

definition busyWorld :: world where
  "busyWorld =
     \<lparr>server = (\<lambda>t req. Response \<lparr>status = 503, statusText = str ''Busy'', body = []\<rparr>),
      timerLag = (\<lambda>t. 0), latency = (\<lambda>t. 40)\<rparr>"

definition staleState :: state where
  "staleState =
     \<lparr>clock = 4000000, lastRequestTime = 0,
      cachedToc = Some [tocEntry ''T1'' ''GDP''], tocCachedAt = 0,
      cachedGeoCodes = Some [\<lparr>geo_code = str ''AT'', geo_name = str ''Austria'',
                              geo_level = str ''country''\<rparr>],
      geoCodesCachedAt = 0\<rparr>"

text \<open>An engine that finds nothing.\<close>

definition noRegex :: regex_engine where
  "noRegex =
     \<lparr>titleMatch = (\<lambda>xml. None), dimMatches = (\<lambda>xml. []), timeDimMatch = (\<lambda>xml. None),
      codelistMatches = (\<lambda>xml. []), codeMatches = (\<lambda>xml. []),
      conceptMatch = (\<lambda>dimId xml. NoMatch)\<rparr>"

text \<open>
  A world that answers every request with the same text, and an engine that finds in it
  the dimension \<open>geo\<close> declared twice, the dimension \<open>unit\<close>, a time dimension, and one
  code list, of 201 codes. \<open>demoStructure\<close> is the structure to expect.
\<close>

definition okWorld :: world where
  "okWorld =
     \<lparr>server = (\<lambda>t req. Response \<lparr>status = 200, statusText = str ''OK'', body = str ''xml''\<rparr>),
      timerLag = (\<lambda>t. 0), latency = (\<lambda>t. 40)\<rparr>"

definition manyCodes :: "(jsstring \<times> jsstring) list" where
  "manyCodes = replicate 201 (str ''AT'', str ''Austria'')"

definition demoRegex :: regex_engine where
  "demoRegex =
     \<lparr>titleMatch = (\<lambda>xml. None),
      dimMatches = (\<lambda>xml. [(str ''geo'', str ''CL_GEO''), (str ''unit'', str ''CL_UNIT''),
                             (str ''geo'', str ''CL_GEO'')]),
      timeDimMatch = (\<lambda>xml. Some (str ''TIME_PERIOD'')),
      codelistMatches = (\<lambda>xml. [(str ''CL_GEO'', str ''codes'')]),
      codeMatches = (\<lambda>content. manyCodes),
      conceptMatch = (\<lambda>dimId xml. NoMatch)\<rparr>"

definition demoStructure :: DatasetStructure where
  "demoStructure =
     \<lparr>ds_datasetCode = str ''TPS1'', ds_title = str ''tps1'',
      ds_dimensions =
        [\<lparr>dim_id = str ''geo'', dim_name = str ''geo'',
          dim_values = replicate 200 \<lparr>item_id = str ''AT'', item_name = str ''Austria''\<rparr>\<rparr>,
         \<lparr>dim_id = str ''unit'', dim_name = str ''unit'', dim_values = []\<rparr>,
         timeDimension (str ''TIME_PERIOD'')]\<rparr>"

text \<open>An engine that finds seven geo codes in the code list.\<close>

definition geoRegex :: regex_engine where
  "geoRegex =
     noRegex\<lparr>codeMatches :=
       (\<lambda>xml. [(str ''DE'', str ''Germany''), (str ''DE2'', str ''Bayern''),
               (str ''DE21'', str ''Oberbayern''), (str ''DE212'', str ''Munich''),
               (str ''EU27_2020'', str ''European Union''), (str ''EA20'', str ''Euro area''),
               (str ''WORLD_X'', str ''World'')])\<rparr>"

text \<open>
  A state with a fresh list of geo codes; \<open>U+00D6\<close> and \<open>U+00F6\<close> are the letter O
  with diaeresis, capital and small.
\<close>

definition geoEntry :: "jsstring \<Rightarrow> jsstring \<Rightarrow> GeoCode" where
  "geoEntry c n = \<lparr>geo_code = c, geo_name = n, geo_level = geoLevel c\<rparr>"

definition geoLoaded :: state where
  "geoLoaded =
     \<lparr>clock = 5000, lastRequestTime = 1000, cachedToc = None, tocCachedAt = 0,
      cachedGeoCodes = Some [geoEntry (str ''DE'') (str ''Deutschland''),
                             geoEntry (str ''AT'') ([214] @ str ''sterreich''),
                             geoEntry (str ''AT1'') (str ''Ost'' @ [246] @ str ''sterreich'')],
      geoCodesCachedAt = 1000\<rparr>"

section \<open>Properties\<close>

subsection \<open>The level of a geo code\<close>

lemma resolveGeoCode_refresh:
  assumes "cachedGeoCodes st = None \<or> TOC_CACHE_DURATION_MS < clock st - geoCodesCachedAt st"
    and "rateLimitedFetch w geoUrl sdmxHeaders st = (Response res, st1)" and "ok res"
  shows "resolveGeoCode w rx u query st
         = (Inr (take 20 (filter (geoMatches u query) (parseGeoCodes rx (body res)))),
            st1\<lparr>cachedGeoCodes := Some (parseGeoCodes rx (body res)),
                geoCodesCachedAt := clock st\<rparr>)"
  using assms by (auto simp: resolveGeoCode_def Let_def slice0_def)

text \<open>
  C5. The geo codes that a refresh builds from the code list are the pairs of code and
  name that the code expression finds, in order, each with a level that depends on
  the text of its code only: two code units make a country, three a NUTS 1 region,
  four a NUTS 2 region, five a NUTS 3 region; any other code is an aggregate when it
  starts with \<open>EU\<close> or \<open>EA\<close>, the two aggregate prefixes, and \<open>other\<close> when it does
  not. When the list has to be loaded and the server answers with a status from 200
  to 299, these are the codes that \<open>resolveGeoCode\<close> leaves in the cache.
\<close>

theorem geo_level_by_code_shape:
  "(\<forall>gc \<in> set (parseGeoCodes rx xml).
       (length (geo_code gc) = 2 \<longrightarrow> geo_level gc = str ''country'')
     \<and> (length (geo_code gc) = 3 \<longrightarrow> geo_level gc = str ''nuts1'')
     \<and> (length (geo_code gc) = 4 \<longrightarrow> geo_level gc = str ''nuts2'')
     \<and> (length (geo_code gc) = 5 \<longrightarrow> geo_level gc = str ''nuts3'')
     \<and> (length (geo_code gc) \<notin> {2, 3, 4, 5}
          \<and> (startsWith (geo_code gc) (str ''EU'') \<or> startsWith (geo_code gc) (str ''EA''))
          \<longrightarrow> geo_level gc = str ''aggregate'')
     \<and> (length (geo_code gc) \<notin> {2, 3, 4, 5}
          \<and> \<not> startsWith (geo_code gc) (str ''EU'') \<and> \<not> startsWith (geo_code gc) (str ''EA'')
          \<longrightarrow> geo_level gc = str ''other''))
   \<and> map (\<lambda>gc. (geo_code gc, geo_name gc)) (parseGeoCodes rx xml) = codeMatches rx xml
   \<and> ((cachedGeoCodes st = None \<or> TOC_CACHE_DURATION_MS < clock st - geoCodesCachedAt st)
       \<and> rateLimitedFetch w geoUrl sdmxHeaders st = (Response res, st1) \<and> ok res
      \<longrightarrow> cachedGeoCodes (snd (resolveGeoCode w rx u query st))
          = Some (parseGeoCodes rx (body res)))"
proof (intro conjI)
  show "\<forall>gc \<in> set (parseGeoCodes rx xml).
       (length (geo_code gc) = 2 \<longrightarrow> geo_level gc = str ''country'')
     \<and> (length (geo_code gc) = 3 \<longrightarrow> geo_level gc = str ''nuts1'')
     \<and> (length (geo_code gc) = 4 \<longrightarrow> geo_level gc = str ''nuts2'')
     \<and> (length (geo_code gc) = 5 \<longrightarrow> geo_level gc = str ''nuts3'')
     \<and> (length (geo_code gc) \<notin> {2, 3, 4, 5}
          \<and> (startsWith (geo_code gc) (str ''EU'') \<or> startsWith (geo_code gc) (str ''EA''))
          \<longrightarrow> geo_level gc = str ''aggregate'')
     \<and> (length (geo_code gc) \<notin> {2, 3, 4, 5}
          \<and> \<not> startsWith (geo_code gc) (str ''EU'') \<and> \<not> startsWith (geo_code gc) (str ''EA'')
          \<longrightarrow> geo_level gc = str ''other'')"
    by (auto simp: parseGeoCodes_def geoLevel_def)
  show "map (\<lambda>gc. (geo_code gc, geo_name gc)) (parseGeoCodes rx xml) = codeMatches rx xml"
    by (simp add: parseGeoCodes_def o_def split_def)
  show "(cachedGeoCodes st = None \<or> TOC_CACHE_DURATION_MS < clock st - geoCodesCachedAt st)
       \<and> rateLimitedFetch w geoUrl sdmxHeaders st = (Response res, st1) \<and> ok res
      \<longrightarrow> cachedGeoCodes (snd (resolveGeoCode w rx u query st))
          = Some (parseGeoCodes rx (body res))"
    using resolveGeoCode_refresh [of st w res st1 rx u query] by auto
qed

text \<open>
  The example: a module just loaded asks for the code list, and the seven codes come
  out with the levels of the specification; \<open>EA20\<close> has four code units and is
  therefore a NUTS 2 region, not an aggregate.
\<close>

theorem geo_level_by_code_shape_witness:
  "(cachedGeoCodes (initialState 1000) = None
      \<or> TOC_CACHE_DURATION_MS < clock (initialState 1000) - geoCodesCachedAt (initialState 1000))
   \<and> rateLimitedFetch okWorld geoUrl sdmxHeaders (initialState 1000)
     = (Response \<lparr>status = 200, statusText = str ''OK'', body = str ''xml''\<rparr>,
        (initialState 1000)\<lparr>lastRequestTime := 1000, clock := 1040\<rparr>)
   \<and> ok \<lparr>status = 200, statusText = str ''OK'', body = str ''xml''\<rparr>
   \<and> cachedGeoCodes (snd (resolveGeoCode okWorld geoRegex latin1 (str ''de'') (initialState 1000)))
     = Some (parseGeoCodes geoRegex (str ''xml''))
   \<and> map geo_code (parseGeoCodes geoRegex (str ''xml''))
     = [str ''DE'', str ''DE2'', str ''DE21'', str ''DE212'', str ''EU27_2020'', str ''EA20'',
        str ''WORLD_X'']
   \<and> map geo_level (parseGeoCodes geoRegex (str ''xml''))
     = [str ''country'', str ''nuts1'', str ''nuts2'', str ''nuts3'', str ''aggregate'',
        str ''nuts2'', str ''other'']"
proof -
  have hyp: "(cachedGeoCodes (initialState 1000) = None
      \<or> TOC_CACHE_DURATION_MS < clock (initialState 1000) - geoCodesCachedAt (initialState 1000))
   \<and> rateLimitedFetch okWorld geoUrl sdmxHeaders (initialState 1000)
     = (Response \<lparr>status = 200, statusText = str ''OK'', body = str ''xml''\<rparr>,
        (initialState 1000)\<lparr>lastRequestTime := 1000, clock := 1040\<rparr>)
   \<and> ok \<lparr>status = 200, statusText = str ''OK'', body = str ''xml''\<rparr>"
    by (simp add: initialState_def okWorld_def rateLimitedFetch_def Let_def ok_def
          MIN_REQUEST_INTERVAL_MS_def)
  note inst = geo_level_by_code_shape
    [of geoRegex "str ''xml''" "initialState 1000" okWorld
        "\<lparr>status = 200, statusText = str ''OK'', body = str ''xml''\<rparr>"
        "(initialState 1000)\<lparr>lastRequestTime := 1000, clock := 1040\<rparr>" latin1 "str ''de''"]
  have cached: "cachedGeoCodes (snd (resolveGeoCode okWorld geoRegex latin1 (str ''de'')
                   (initialState 1000)))
     = Some (parseGeoCodes geoRegex (str ''xml''))"
    using inst [THEN conjunct2, THEN conjunct2, rule_format, OF hyp] by simp
  have codes: "map geo_code (parseGeoCodes geoRegex (str ''xml''))
     = [str ''DE'', str ''DE2'', str ''DE21'', str ''DE212'', str ''EU27_2020'', str ''EA20'',
        str ''WORLD_X'']"
    using inst [THEN conjunct2, THEN conjunct1]
    by (simp add: geoRegex_def map_eq_Cons_conv) (auto simp: map_eq_Cons_conv)
  have levels: "map geo_level (parseGeoCodes geoRegex (str ''xml''))
     = [str ''country'', str ''nuts1'', str ''nuts2'', str ''nuts3'', str ''aggregate'',
        str ''nuts2'', str ''other'']"
    using inst [THEN conjunct1]
    by (simp add: parseGeoCodes_def geoRegex_def str_def startsWith_def)
  show ?thesis
    using hyp cached codes levels by simp
qed

subsection \<open>Linear index and index tuple\<close>

lemma cellIndices_decode:
  "d \<le> length s \<Longrightarrow> \<forall>x\<in>set s. 0 < x \<Longrightarrow>
   cellIndices s d (Fin r) acc = map Fin (rev (decodeFromLast (rev (take d s)) r)) @ acc"
proof (induction d arbitrary: r acc)
  case 0
  then show ?case by simp
next
  case (Suc d)
  then have pos: "s ! d \<noteq> 0"
    by (metis Suc_le_lessD less_numeral_extra(3) nth_mem)
  have sz: "sizeAt s d = Some (s ! d)"
    using Suc.prems(1) by (simp add: sizeAt_def)
  have tk: "take (Suc d) s = take d s @ [s ! d]"
    using Suc.prems(1) by (simp add: take_Suc_conv_app_nth)
  have "cellIndices s (Suc d) (Fin r) acc
        = cellIndices s d (Fin (r div s ! d)) (Fin (r mod s ! d) # acc)"
    using pos by (simp add: sz)
  also have "\<dots> = map Fin (rev (decodeFromLast (rev (take d s)) (r div s ! d)))
                   @ Fin (r mod s ! d) # acc"
    using Suc.prems by (intro Suc.IH) auto
  finally show ?case
    by (simp add: tk)
qed

lemma decodeIndex_snoc: "decodeIndex (s @ [x]) i = decodeIndex s (i div x) @ [i mod x]"
  by (simp add: decodeIndex_def)

lemma length_decodeFromLast: "length (decodeFromLast s i) = length s"
  by (induction s arbitrary: i) auto

lemma length_decodeIndex: "length (decodeIndex s i) = length s"
  by (simp add: decodeIndex_def length_decodeFromLast)

lemma encodeIndex_snoc:
  "length idx = length s \<Longrightarrow> encodeIndex (s @ [x]) (idx @ [j]) = encodeIndex s idx * x + j"
proof -
  assume len: "length idx = length s"
  let ?f = "\<lambda>d. (idx @ [j]) ! d * prod_list (drop (Suc d) (s @ [x]))"
  let ?g = "\<lambda>d. idx ! d * prod_list (drop (Suc d) s)"
  have body: "map ?f [0..<length s] = map (\<lambda>d. ?g d * x) [0..<length s]"
    using len by (auto simp: nth_append)
  have last: "?f (length s) = j"
    using len by (simp add: nth_append)
  have "encodeIndex (s @ [x]) (idx @ [j]) = sum_list (map ?f [0..<length s]) + ?f (length s)"
    by (simp add: encodeIndex_def)
  also have "\<dots> = sum_list (map (\<lambda>d. ?g d * x) [0..<length s]) + j"
    by (simp only: body last)
  also have "\<dots> = sum_list (map ?g [0..<length s]) * x + j"
    by (simp add: sum_list_mult_const)
  finally show ?thesis
    by (simp add: encodeIndex_def)
qed

lemma encode_decode: "i < prod_list s \<Longrightarrow> encodeIndex s (decodeIndex s i) = i"
proof (induction s arbitrary: i rule: rev_induct)
  case Nil
  then show ?case by (simp add: encodeIndex_def decodeIndex_def)
next
  case (snoc x s)
  then have "i div x < prod_list s"
    by (simp add: less_mult_imp_div_less)
  with snoc.IH have "encodeIndex s (decodeIndex s (i div x)) = i div x" by simp
  then show ?case
    by (simp add: decodeIndex_snoc encodeIndex_snoc length_decodeIndex)
qed

lemma decodeIndex_bounds: "\<forall>x\<in>set s. 0 < x \<Longrightarrow> d < length s \<Longrightarrow> decodeIndex s i ! d < s ! d"
proof (induction s arbitrary: i d rule: rev_induct)
  case Nil then show ?case by simp
next
  case (snoc x s)
  show ?case
  proof (cases "d < length s")
    case True
    then show ?thesis using snoc by (simp add: decodeIndex_snoc nth_append length_decodeIndex)
  next
    case False
    then have "d = length s" using snoc.prems by simp
    then show ?thesis using snoc.prems by (simp add: decodeIndex_snoc nth_append length_decodeIndex)
  qed
qed

lemma prod_pos: "i < prod_list s \<Longrightarrow> \<forall>x\<in>set s. 0 < (x::nat)"
  by (metis gr_zeroI not_less_zero prod_list_zero_iff)

text \<open>
  C2. For every vector of sizes \<open>s\<close> and every linear index \<open>i\<close> below the product of
  \<open>s\<close>: the indices that the table formatter computes for \<open>i\<close>, by taking the
  remainder and the quotient by the size of each dimension from the last one backward,
  are the decoding of \<open>i\<close>; there is one per dimension, each below the size of its
  dimension; and encoding them, as the sum over \<open>d\<close> of \<open>idx[d]\<close> times the product of
  the sizes after \<open>d\<close>, gives \<open>i\<close> back.
\<close>

theorem index_round_trip:
  assumes "i < prod_list s"
  shows "cellIndices s (length s) (Fin i) [] = map Fin (decodeIndex s i)
         \<and> length (decodeIndex s i) = length s
         \<and> (\<forall>d < length s. decodeIndex s i ! d < s ! d)
         \<and> encodeIndex s (decodeIndex s i) = i"
  using assms cellIndices_decode [of "length s" s i "[]"] prod_pos [OF assms]
  by (simp add: decodeIndex_def [symmetric] length_decodeIndex decodeIndex_bounds encode_decode)

theorem index_round_trip_witness:
  "(5::nat) < prod_list [2, 3]
   \<and> cellIndices [2, 3] (length [2, 3::nat]) (Fin 5) [] = [Fin 1, Fin 2]
   \<and> decodeIndex [2, 3] 5 = [1, 2]
   \<and> encodeIndex [2, 3] [1, 2] = 5"
  using index_round_trip [of 5 "[2, 3]"]
  by (simp add: decodeIndex_def)

subsection \<open>The dense array of observations\<close>

lemma foldl_mult_prod_list: "foldl (\<lambda>a b. a * b) a xs = a * prod_list (xs :: nat list)"
  by (induction xs arbitrary: a) (auto simp: mult.assoc)

lemma pushValues_eq:
  "i \<le> n \<Longrightarrow>
   pushValues raw n i vals
   = vals @ map (\<lambda>j. case raw (natToString j) of Some v \<Rightarrow> v | None \<Rightarrow> None) [i..<n]"
proof (induction raw n i vals rule: pushValues.induct)
  case (1 raw n i vals)
  show ?case
  proof (cases "i < n")
    case True
    then show ?thesis
      using "1.IH" by (subst pushValues.simps) (simp add: upt_conv_Cons)
  next
    case False
    then show ?thesis
      using "1.prems" by (subst pushValues.simps) simp
  qed
qed

lemma denseValues_eq:
  "denseValues raw sizes
   = map (\<lambda>j. case raw (natToString j) of Some v \<Rightarrow> v | None \<Rightarrow> None) [0..<prod_list sizes]"
  by (simp add: denseValues_def pushValues_eq foldl_mult_prod_list)

lemma length_decodeDimension:
  "length (dd_categories (decodeDimension dd dimId))
   = (case dd dimId of Some d \<Rightarrow> length (jd_index d) | None \<Rightarrow> 0)"
  by (simp add: decodeDimension_def Let_def split: option.splits)

lemma getDatasetData_decodes:
  assumes "getDatasetData w rt u showNum datasetCode filters lang st = (Inr r, st')"
  shows "\<exists>json. r = decodeDataResponse showNum datasetCode json"
  using assms
  by (auto simp: getDatasetData_def Let_def
           split: prod.splits fetch_result.splits if_splits sum.splits)

text \<open>
  C1, as amended. Every result of \<open>getDatasetData\<close> is the decoding of a document, by
  the lemma above. The dense array has as many cells as the product of the sizes that
  the document declares, and cell \<open>i\<close> holds the entry of the sparse map under the key
  \<open>String(i)\<close> when there is one and \<open>null\<close> when there is none. The decoded dimensions
  are those of \<open>id\<close>, each with as many categories as its index has entries. Hence the
  number of cells is the product of the numbers of categories whenever the declared
  size of each dimension is the number of its categories.
\<close>

theorem dense_values_follow_sizes:
  "length (res_values (decodeDataResponse showNum datasetCode json)) = prod_list (js_size json)
   \<and> (\<forall>i < prod_list (js_size json).
         res_values (decodeDataResponse showNum datasetCode json) ! i
         = (case js_value json (natToString i) of Some v \<Rightarrow> v | None \<Rightarrow> None))
   \<and> length (res_dimensions (decodeDataResponse showNum datasetCode json)) = length (js_id json)
   \<and> (\<forall>k < length (js_id json).
         length (dd_categories (res_dimensions (decodeDataResponse showNum datasetCode json) ! k))
         = (case js_dimension json (js_id json ! k) of
              Some d \<Rightarrow> length (jd_index d) | None \<Rightarrow> 0))
   \<and> (map (\<lambda>d. length (dd_categories d))
            (res_dimensions (decodeDataResponse showNum datasetCode json)) = js_size json
        \<longrightarrow> length (res_values (decodeDataResponse showNum datasetCode json))
            = prod_list (map (\<lambda>d. length (dd_categories d))
                             (res_dimensions (decodeDataResponse showNum datasetCode json))))"
  by (simp add: decodeDataResponse_def Let_def denseValues_eq length_decodeDimension)

theorem dense_values_follow_sizes_witness:
  "map (\<lambda>d. length (dd_categories d))
       (res_dimensions (decodeDataResponse natToString (str ''X'') exampleCube)) = js_size exampleCube
   \<and> length (res_values (decodeDataResponse natToString (str ''X'') exampleCube)) = 6
   \<and> res_values (decodeDataResponse natToString (str ''X'') exampleCube) ! 5 = Some 142
   \<and> res_values (decodeDataResponse natToString (str ''X'') exampleCube) ! 4 = None"
  using dense_values_follow_sizes [of natToString "str ''X''" exampleCube]
  by (simp add: exampleCube_def decodeDataResponse_def decodeDimension_def Let_def
        natToString.simps str_def)

text \<open>
  The claim as it was written fails on a document whose sizes and category indexes
  disagree: two cells, and a product of category counts of one.
\<close>

theorem dense_length_counterexample:
  "length (res_values (decodeDataResponse natToString (str ''X'') shortIndexCube)) = 2
   \<and> prod_list (map (\<lambda>d. length (dd_categories d))
                    (res_dimensions (decodeDataResponse natToString (str ''X'') shortIndexCube))) = 1"
  by (simp add: shortIndexCube_def decodeDataResponse_def decodeDimension_def Let_def
        denseValues_def pushValues.simps natToString.simps str_def)

subsection \<open>The formatted table\<close>

lemma pushRows_eq:
  "pushRows showNum dims sizes vals i lines
   = lines @ map (\<lambda>j. cellRow showNum dims sizes j (the (vals ! j)))
                 (filter (\<lambda>j. vals ! j \<noteq> None) [i..<length vals])"
proof (induction showNum dims sizes vals i lines rule: pushRows.induct)
  case (1 showNum dims sizes vals i lines)
  show ?case
  proof (cases "i < length vals")
    case True
    then show ?thesis
      using "1.IH" by (subst pushRows.simps) (auto simp: upt_conv_Cons split: option.splits)
  next
    case False
    then show ?thesis
      by (subst pushRows.simps) simp
  qed
qed

text \<open>
  C3, as amended. When there is at least one dimension and at least one cell, the
  formatted text is the header line, a line of dashes, and then one row for every
  position that holds a number, in the order of the positions: a position holding
  \<open>null\<close> gives no row, and no row is left out, whatever their number. Without a
  dimension or without a cell the text is \<open>No data available.\<close>
\<close>

theorem table_rows_are_present_values:
  "formatJsonStatData showNum dims sizes vals
   = (if dims = [] \<or> vals = [] then str ''No data available.''
      else join [10]
             ([join (str '' | '') (map dd_label dims) @ str '' | Value'',
               replicate (length (join (str '' | '') (map dd_label dims) @ str '' | Value'')) 45]
              @ map (\<lambda>i. cellRow showNum dims sizes i (the (vals ! i)))
                    (filter (\<lambda>i. vals ! i \<noteq> None) [0..<length vals])))"
  by (simp add: formatJsonStatData_def Let_def pushRows_eq)

theorem table_rows_are_present_values_witness:
  "res_values (decodeDataResponse natToString (str ''X'') exampleCube)
   = [Some 100, None, None, None, None, Some 142]
   \<and> res_formattedData (decodeDataResponse natToString (str ''X'') exampleCube)
     = join [10] [str ''geo | time | Value'', str ''------------------'',
                  str ''Germany | 2020 | 100'', str ''France | 2022 | 142'']"
  using table_rows_are_present_values
    [of natToString "res_dimensions (decodeDataResponse natToString (str ''X'') exampleCube)"
        "[2, 3]" "[Some 100, None, None, None, None, Some 142]"]
  by (simp add: exampleCube_def decodeDataResponse_def Let_def denseValues_def pushValues.simps
        natToString.simps str_def decodeDimension_def cellRow_def cellLabel_def sizeAt_def
        orElse_def)

text \<open>
  The claim as it was written fails on a document without dimensions: its one cell
  holds a number, and the formatted text has no row for it.
\<close>

theorem table_row_counterexample:
  "res_values (decodeDataResponse natToString (str ''X'') noDimensionCube) = [Some 7]
   \<and> res_formattedData (decodeDataResponse natToString (str ''X'') noDimensionCube)
     = str ''No data available.''"
  by (simp add: noDimensionCube_def decodeDataResponse_def Let_def denseValues_def
        pushValues.simps natToString.simps str_def formatJsonStatData_def)

subsection \<open>Dataset search\<close>

lemma jsIncludes_iff_sublist: "jsIncludes s t \<longleftrightarrow> sublist t s"
  by (induction s) (auto simp: sublist_Cons_right)

lemma count_loop_eq:
  "foldl (\<lambda>s term. if P term then s + 1 else s) (a::nat) ts = a + length (filter P ts)"
  by (induction ts arbitrary: a) auto

lemma insort_key_map:
  "map h (insort_key (\<lambda>x. f (h x)) x xs) = insort_key f (h x) (map h xs)"
  by (induction xs) auto

lemma sort_key_map: "sort_key f (map h xs) = map h (sort_key (\<lambda>x. f (h x)) xs)"
  by (induction xs) (auto simp: insort_key_map)

lemma slice0_map: "slice0 (map h xs) n = map h (slice0 xs n)"
  by (simp add: slice0_def take_map)

lemma score_eq:
  "score u terms lq e
   = length (filter (jsIncludes (toLowerCase u (toc_title e @ str '' '' @ toc_code e))) terms)
     + (if toLowerCase u (toc_code e) = lq then 100 else 0)"
  by (simp add: score_def Let_def count_loop_eq)

lemma rankEntries_eq:
  "rankEntries u toc query limit
   = slice0 (sort_key (\<lambda>e. - int (score u (queryTerms (toLowerCase u query)) (toLowerCase u query) e))
               (filter (\<lambda>e. 0 < score u (queryTerms (toLowerCase u query)) (toLowerCase u query) e) toc))
            limit"
  by (simp add: rankEntries_def Let_def filter_map o_def sort_key_map slice0_map)

lemma splitWs_sublist: "t \<in> set (splitWs cur s) \<Longrightarrow> sublist t (cur @ s)"
proof (induction cur s rule: splitWs.induct)
  case (1 cur)
  then show ?case by simp
next
  case (2 cur c cs)
  show ?case
  proof (cases "isWhiteSpace c")
    case True
    with 2 have "t = cur \<or> t \<in> set (splitWs [] (dropWhile isWhiteSpace cs))" by simp
    then show ?thesis
    proof
      assume "t = cur" then show ?thesis by (simp add: sublist_append_rightI)
    next
      assume "t \<in> set (splitWs [] (dropWhile isWhiteSpace cs))"
      with "2.IH"(1) True have "sublist t (dropWhile isWhiteSpace cs)" by simp
      moreover have "sublist (dropWhile isWhiteSpace cs) (cur @ c # cs)"
        by (metis sublist_def takeWhile_dropWhile_id append.assoc append_Cons append_Nil2)
      ultimately show ?thesis using sublist_order.order_trans by blast
    qed
  next
    case False
    with 2 show ?thesis by simp
  qed
qed

lemma queryTerms_sublist: "t \<in> set (queryTerms s) \<Longrightarrow> sublist t s"
  using splitWs_sublist [of t "[]" s] by (simp add: queryTerms_def)

lemma score_exact:
  assumes "toLowerCase u (toc_code e) = toLowerCase u query" and "codeCaseKept u e"
  shows "score u (queryTerms (toLowerCase u query)) (toLowerCase u query) e
         = length (queryTerms (toLowerCase u query)) + 100"
proof -
  have "\<forall>t \<in> set (queryTerms (toLowerCase u query)).
          jsIncludes (toLowerCase u (toc_title e @ str '' '' @ toc_code e)) t"
  proof
    fix t assume "t \<in> set (queryTerms (toLowerCase u query))"
    then have "sublist t (toLowerCase u (toc_code e))"
      using assms(1) queryTerms_sublist by simp
    then have "sublist t (toLowerCase u (toc_title e @ str '' '' @ toc_code e))"
      using assms(2) sublist_order.order_trans by (auto simp: codeCaseKept_def)
    then show "jsIncludes (toLowerCase u (toc_title e @ str '' '' @ toc_code e)) t"
      by (simp add: jsIncludes_iff_sublist)
  qed
  then have "filter (jsIncludes (toLowerCase u (toc_title e @ str '' '' @ toc_code e)))
               (queryTerms (toLowerCase u query)) = queryTerms (toLowerCase u query)"
    by (simp add: filter_id_conv)
  then show ?thesis using assms(1) by (simp add: score_eq)
qed

lemma score_not_exact:
  assumes "toLowerCase u (toc_code e) \<noteq> toLowerCase u query"
  shows "score u (queryTerms (toLowerCase u query)) (toLowerCase u query) e
         \<le> length (queryTerms (toLowerCase u query))"
  using assms by (simp add: score_eq)

lemma rankEntries_full:
  "rankEntries u toc query (int (length toc))
   = sort_key (\<lambda>e. - int (entryScore u query e)) (filter (\<lambda>e. 0 < entryScore u query e) toc)"
proof -
  have "length (filter (\<lambda>e. 0 < entryScore u query e) toc) \<le> length toc"
    by simp
  then show ?thesis
    by (simp add: rankEntries_eq slice0_def entryScore_def)
qed

lemma rankEntries_take:
  "\<exists>m. rankEntries u toc query limit = take m (rankEntries u toc query (int (length toc)))
       \<and> (0 \<le> limit \<longrightarrow> m = nat limit)"
  unfolding rankEntries_full
  by (auto simp: rankEntries_eq slice0_def entryScore_def)

lemma ranked_stable:
  "filter (\<lambda>e. entryScore u query e = k) (rankEntries u toc query (int (length toc)))
   = (if 0 < k then filter (\<lambda>e. entryScore u query e = k) toc else [])"
proof -
  have "filter (\<lambda>e. entryScore u query e = k) (rankEntries u toc query (int (length toc)))
        = filter (\<lambda>e. - int (entryScore u query e) = - int k)
            (sort_key (\<lambda>e. - int (entryScore u query e)) (filter (\<lambda>e. 0 < entryScore u query e) toc))"
    by (simp add: rankEntries_full)
  also have "\<dots> = filter (\<lambda>e. - int (entryScore u query e) = - int k)
                      (filter (\<lambda>e. 0 < entryScore u query e) toc)"
    by (rule sort_key_stable)
  also have "\<dots> = (if 0 < k then filter (\<lambda>e. entryScore u query e = k) toc else [])"
    by (cases "0 < k") (auto intro: filter_cong simp: filter_empty_conv)
  finally show ?thesis .
qed

lemma ranked_sorted:
  "sorted_wrt (\<lambda>a b. entryScore u query b \<le> entryScore u query a)
     (rankEntries u toc query (int (length toc)))"
proof -
  have "sorted (map (\<lambda>e. - int (entryScore u query e)) (rankEntries u toc query (int (length toc))))"
    by (simp add: rankEntries_full)
  then show ?thesis
    by (simp add: sorted_map)
qed

lemma set_rankEntries: "set (rankEntries u toc query limit) \<subseteq> set toc"
proof -
  have "set (slice0 xs n) \<subseteq> set xs" for xs :: "TocEntry list" and n
    by (auto simp: slice0_def dest: in_set_takeD)
  then show ?thesis
    unfolding rankEntries_eq by fastforce
qed

lemma exact_beats_other:
  assumes "toLowerCase u (toc_code e) = toLowerCase u query"
    and "toLowerCase u (toc_code e') \<noteq> toLowerCase u query"
    and "codeCaseKept u e \<or> length (queryTerms (toLowerCase u query)) < 100"
  shows "entryScore u query e' < entryScore u query e"
proof -
  have other: "entryScore u query e' \<le> length (queryTerms (toLowerCase u query))"
    using score_not_exact [OF assms(2)] by (simp add: entryScore_def)
  from assms(3) show ?thesis
  proof
    assume "codeCaseKept u e"
    then show ?thesis
      using score_exact [OF assms(1)] other by (simp add: entryScore_def)
  next
    assume few: "length (queryTerms (toLowerCase u query)) < 100"
    have "100 \<le> entryScore u query e"
      using assms(1) by (simp add: entryScore_def score_eq)
    then show ?thesis
      using other few by simp
  qed
qed

lemma exact_first:
  assumes "i < j" and "j < length (rankEntries u toc query limit)"
    and "toLowerCase u (toc_code (rankEntries u toc query limit ! j)) = toLowerCase u query"
    and "(\<forall>e \<in> set toc. codeCaseKept u e) \<or> length (queryTerms (toLowerCase u query)) < 100"
  shows "toLowerCase u (toc_code (rankEntries u toc query limit ! i)) = toLowerCase u query"
proof (rule ccontr)
  assume other: "toLowerCase u (toc_code (rankEntries u toc query limit ! i)) \<noteq> toLowerCase u query"
  obtain m where m: "rankEntries u toc query limit = take m (rankEntries u toc query (int (length toc)))"
    using rankEntries_take by blast
  have "sorted_wrt (\<lambda>a b. entryScore u query b \<le> entryScore u query a) (rankEntries u toc query limit)"
    unfolding m using ranked_sorted by (rule sorted_wrt_take)
  then have "entryScore u query (rankEntries u toc query limit ! j)
             \<le> entryScore u query (rankEntries u toc query limit ! i)"
    using assms(1,2) by (rule sorted_wrt_nth_less)
  moreover have "rankEntries u toc query limit ! j \<in> set toc"
    using assms(2) set_rankEntries nth_mem by blast
  then have "codeCaseKept u (rankEntries u toc query limit ! j)
             \<or> length (queryTerms (toLowerCase u query)) < 100"
    using assms(4) by blast
  then have "entryScore u query (rankEntries u toc query limit ! i)
             < entryScore u query (rankEntries u toc query limit ! j)"
    using assms(3) other exact_beats_other by blast
  ultimately show False by simp
qed

lemma codeCaseKept_latin1: "codeCaseKept latin1 e"
proof -
  have "sublist (map lowerUnit (toc_code e))
          ((map lowerUnit (toc_title e) @ map lowerUnit (str '' '')) @ map lowerUnit (toc_code e))"
    by (rule sublist_append_leftI)
  then show ?thesis
    by (simp add: codeCaseKept_def latin1_def)
qed

text \<open>
  C4, as amended. For every catalog, query and limit: the score of an entry is the
  number of terms of the query (its lower-case form split at white space) that occur
  in the lower-case form of the title, one space and the code, plus 100 when the code
  equals the whole query without regard to case. The ranking without truncation holds,
  for every positive score, exactly the entries of the catalog with that score, in
  catalog order, and none of score zero; it is in descending order of score; a limit
  that is not negative keeps its first \<open>limit\<close> entries. An entry whose code equals the
  query scores above every entry whose code does not, and so no such entry comes
  before it in the result, when the query has fewer than 100 terms or the lower-case
  form of the searchable text contains that of the code. \<open>searchDatasets\<close> returns this
  ranking of the catalog that \<open>fetchToc\<close> gives it.
\<close>

theorem search_ranking:
  "(\<forall>e. entryScore u query e
         = length (filter (jsIncludes (toLowerCase u (toc_title e @ str '' '' @ toc_code e)))
                          (queryTerms (toLowerCase u query)))
           + (if toLowerCase u (toc_code e) = toLowerCase u query then 100 else 0))
   \<and> (\<forall>k. filter (\<lambda>e. entryScore u query e = k) (rankEntries u toc query (int (length toc)))
            = (if 0 < k then filter (\<lambda>e. entryScore u query e = k) toc else []))
   \<and> sorted_wrt (\<lambda>a b. entryScore u query b \<le> entryScore u query a)
        (rankEntries u toc query (int (length toc)))
   \<and> (0 \<le> limit \<longrightarrow>
        rankEntries u toc query limit = take (nat limit) (rankEntries u toc query (int (length toc))))
   \<and> (\<forall>e e'. toLowerCase u (toc_code e) = toLowerCase u query
              \<and> toLowerCase u (toc_code e') \<noteq> toLowerCase u query
              \<and> (codeCaseKept u e \<or> length (queryTerms (toLowerCase u query)) < 100)
              \<longrightarrow> entryScore u query e' < entryScore u query e)
   \<and> (\<forall>i j. i < j \<and> j < length (rankEntries u toc query limit)
             \<and> toLowerCase u (toc_code (rankEntries u toc query limit ! j)) = toLowerCase u query
             \<and> ((\<forall>e \<in> set toc. codeCaseKept u e)
                 \<or> length (queryTerms (toLowerCase u query)) < 100)
             \<longrightarrow> toLowerCase u (toc_code (rankEntries u toc query limit ! i)) = toLowerCase u query)
   \<and> (fetchToc w lang st = (Inr toc, st')
        \<longrightarrow> searchDatasets w u query lang limit st = (Inr (rankEntries u toc query limit), st'))"
proof (intro conjI)
  show "\<forall>e. entryScore u query e
         = length (filter (jsIncludes (toLowerCase u (toc_title e @ str '' '' @ toc_code e)))
                          (queryTerms (toLowerCase u query)))
           + (if toLowerCase u (toc_code e) = toLowerCase u query then 100 else 0)"
    by (simp add: entryScore_def score_eq)
  show "\<forall>k. filter (\<lambda>e. entryScore u query e = k) (rankEntries u toc query (int (length toc)))
            = (if 0 < k then filter (\<lambda>e. entryScore u query e = k) toc else [])"
    using ranked_stable by blast
  show "sorted_wrt (\<lambda>a b. entryScore u query b \<le> entryScore u query a)
          (rankEntries u toc query (int (length toc)))"
    by (rule ranked_sorted)
  show "0 \<le> limit \<longrightarrow>
        rankEntries u toc query limit = take (nat limit) (rankEntries u toc query (int (length toc)))"
    using rankEntries_take [of u toc query limit] by auto
  show "\<forall>e e'. toLowerCase u (toc_code e) = toLowerCase u query
              \<and> toLowerCase u (toc_code e') \<noteq> toLowerCase u query
              \<and> (codeCaseKept u e \<or> length (queryTerms (toLowerCase u query)) < 100)
              \<longrightarrow> entryScore u query e' < entryScore u query e"
    using exact_beats_other by blast
  show "\<forall>i j. i < j \<and> j < length (rankEntries u toc query limit)
             \<and> toLowerCase u (toc_code (rankEntries u toc query limit ! j)) = toLowerCase u query
             \<and> ((\<forall>e \<in> set toc. codeCaseKept u e)
                 \<or> length (queryTerms (toLowerCase u query)) < 100)
             \<longrightarrow> toLowerCase u (toc_code (rankEntries u toc query limit ! i)) = toLowerCase u query"
    using exact_first [of _ _ u toc query limit] by blast
  show "fetchToc w lang st = (Inr toc, st')
        \<longrightarrow> searchDatasets w u query lang limit st = (Inr (rankEntries u toc query limit), st')"
    by (simp add: searchDatasets_def)
qed

text \<open>
  The example, on the runtime of the examples, which keeps the case of the code: the
  query \<open>Tec1\<close> puts the dataset of that code before the one that has the word in its
  title, though the catalog lists them the other way round.
\<close>

lemma rank_tec1:
  "rankEntries latin1
     [tocEntry ''T2'' ''tec1 gdp'', tocEntry ''T3'' ''pop'', tocEntry ''TEC1'' ''gdp'']
     (str ''Tec1'') 20
   = [tocEntry ''TEC1'' ''gdp'', tocEntry ''T2'' ''tec1 gdp'']"
  by (simp add: rankEntries_def score_def queryTerms_def Let_def slice0_def
        tocEntry_def str_def latin1_def lowerUnit_def isWhiteSpace_def)

theorem search_ranking_witness:
  "(0::int) \<le> 20
   \<and> rankEntries latin1
        [tocEntry ''T2'' ''tec1 gdp'', tocEntry ''T3'' ''pop'', tocEntry ''TEC1'' ''gdp'']
        (str ''Tec1'') 20
     = [tocEntry ''TEC1'' ''gdp'', tocEntry ''T2'' ''tec1 gdp'']
   \<and> toLowerCase latin1 (toc_code (tocEntry ''TEC1'' ''gdp'')) = toLowerCase latin1 (str ''Tec1'')
   \<and> toLowerCase latin1 (toc_code (tocEntry ''T2'' ''tec1 gdp'')) \<noteq> toLowerCase latin1 (str ''Tec1'')
   \<and> codeCaseKept latin1 (tocEntry ''TEC1'' ''gdp'')
   \<and> entryScore latin1 (str ''Tec1'') (tocEntry ''T2'' ''tec1 gdp'')
     < entryScore latin1 (str ''Tec1'') (tocEntry ''TEC1'' ''gdp'')"
proof -
  have hyp: "toLowerCase latin1 (toc_code (tocEntry ''TEC1'' ''gdp''))
             = toLowerCase latin1 (str ''Tec1'')
     \<and> toLowerCase latin1 (toc_code (tocEntry ''T2'' ''tec1 gdp''))
       \<noteq> toLowerCase latin1 (str ''Tec1'')
     \<and> (codeCaseKept latin1 (tocEntry ''TEC1'' ''gdp'')
        \<or> length (queryTerms (toLowerCase latin1 (str ''Tec1''))) < 100)"
    by (simp add: codeCaseKept_latin1) (simp add: tocEntry_def str_def latin1_def lowerUnit_def)
  note inst = search_ranking
    [of latin1 "str ''Tec1''"
        "[tocEntry ''T2'' ''tec1 gdp'', tocEntry ''T3'' ''pop'', tocEntry ''TEC1'' ''gdp'']" 20]
  have "entryScore latin1 (str ''Tec1'') (tocEntry ''T2'' ''tec1 gdp'')
        < entryScore latin1 (str ''Tec1'') (tocEntry ''TEC1'' ''gdp'')"
    using inst [THEN conjunct2, THEN conjunct2, THEN conjunct2, THEN conjunct2, THEN conjunct1,
               rule_format, OF hyp] .
  then show ?thesis
    using hyp by (simp add: rank_tec1 codeCaseKept_latin1)
qed

text \<open>
  The claim as it was written fails where a term lies across the end of the title and
  the start of the code: counted on title and code put together without the space, the
  entry would have a score of one, and the search does not return it.
\<close>

theorem search_score_counterexample:
  "scoreAsSpecified latin1 (str ''bc'') (tocEntry ''cd'' ''ab'') = 1
   \<and> rankEntries latin1 [tocEntry ''cd'' ''ab''] (str ''bc'') 20 = []"
  by (simp add: scoreAsSpecified_def rankEntries_def score_def queryTerms_def Let_def slice0_def
        tocEntry_def str_def latin1_def lowerUnit_def isWhiteSpace_def)

subsection \<open>Request pacing\<close>

lemma rateLimitedFetch_step:
  assumes "rateLimitedFetch w u hdrs st = (r, st')"
  shows "lastRequestTime st + MIN_REQUEST_INTERVAL_MS \<le> lastRequestTime st'"
    and "clock st \<le> lastRequestTime st'"
    and "lastRequestTime st' \<le> clock st'"
    and "MIN_REQUEST_INTERVAL_MS \<le> clock st - lastRequestTime st \<Longrightarrow> lastRequestTime st' = clock st"
    and "r = server w (lastRequestTime st')
               \<lparr>url = u,
                headers = setAll [(str ''Accept-Encoding'', str ''gzip, deflate''),
                                  (str ''User-Agent'', str ''Eurostat-MCP/1.0'')] hdrs\<rparr>"
    and "cachedToc st' = cachedToc st" and "tocCachedAt st' = tocCachedAt st"
    and "cachedGeoCodes st' = cachedGeoCodes st" and "geoCodesCachedAt st' = geoCodesCachedAt st"
  using assms
  by (auto simp: rateLimitedFetch_def sleep_def Let_def split: if_splits)

lemma fetchSequence_spaced:
  "successively (\<lambda>a b. a + MIN_REQUEST_INTERVAL_MS \<le> b) (lastRequestTime st # fetchSequence w st calls)"
proof (induction calls arbitrary: st)
  case Nil
  then show ?case by simp
next
  case (Cons call calls)
  obtain gap u where call: "call = (gap, u)" by (cases call)
  obtain r st' where step: "rateLimitedFetch w u [] (st\<lparr>clock := clock st + int gap\<rparr>) = (r, st')"
    by (cases "rateLimitedFetch w u [] (st\<lparr>clock := clock st + int gap\<rparr>)")
  have "lastRequestTime st + MIN_REQUEST_INTERVAL_MS \<le> lastRequestTime st'"
    using rateLimitedFetch_step(1) [OF step] by simp
  then show ?case
    using Cons.IH [of st'] by (simp add: call step)
qed

text \<open>
  C8. In the sequential model with an explicit clock, a call of the fetcher records a
  dispatch time that is at least 350 ms after the one recorded before and not before
  the time of the call: when less than 350 ms have passed the caller sleeps for the
  rest of the interval, and otherwise the dispatch time is the time of the call. The
  HTTP call is made at the recorded time, after the time stamp is updated. Hence in
  any run of calls, two consecutive dispatch times are at least 350 ms apart, the
  first of them at least 350 ms after the time stamp found at the start.
\<close>

theorem dispatches_are_spaced:
  "(\<forall>r st'. rateLimitedFetch w u hdrs st = (r, st') \<longrightarrow>
       lastRequestTime st + MIN_REQUEST_INTERVAL_MS \<le> lastRequestTime st'
     \<and> clock st \<le> lastRequestTime st'
     \<and> (MIN_REQUEST_INTERVAL_MS \<le> clock st - lastRequestTime st \<longrightarrow> lastRequestTime st' = clock st)
     \<and> r = server w (lastRequestTime st')
               \<lparr>url = u,
                headers = setAll [(str ''Accept-Encoding'', str ''gzip, deflate''),
                                  (str ''User-Agent'', str ''Eurostat-MCP/1.0'')] hdrs\<rparr>)
   \<and> successively (\<lambda>a b. a + 350 \<le> b) (lastRequestTime st # fetchSequence w st calls)"
  using fetchSequence_spaced [of st w calls]
  by (auto simp: MIN_REQUEST_INTERVAL_MS_def [symmetric] dest: rateLimitedFetch_step)

theorem dispatches_are_spaced_witness:
  "fetchSequence quietWorld (initialState 1000) [(0, str ''a''), (100, str ''b''), (500, str ''c'')]
   = [1000, 1352, 1892]
   \<and> successively (\<lambda>a b. a + 350 \<le> b) [0, 1000, 1352, 1892 :: int]"
  using dispatches_are_spaced [of quietWorld "str ''a''" "[]" "initialState 1000"
      "[(0, str ''a''), (100, str ''b''), (500, str ''c'')]"]
  by (simp add: quietWorld_def initialState_def rateLimitedFetch_def sleep_def Let_def
        MIN_REQUEST_INTERVAL_MS_def)

subsection \<open>The caches\<close>

lemma fetchToc_error_keeps_cache:
  assumes "fetchToc w lang st = (Inl e, st')"
  shows "cachedToc st' = cachedToc st \<and> tocCachedAt st' = tocCachedAt st
         \<and> cachedGeoCodes st' = cachedGeoCodes st \<and> geoCodesCachedAt st' = geoCodesCachedAt st"
proof -
  obtain r st1 where f: "rateLimitedFetch w (tocUrl lang) [] st = (r, st1)"
    by (cases "rateLimitedFetch w (tocUrl lang) [] st")
  have "st' = st1"
    using assms f by (auto simp: fetchToc_def Let_def split: if_splits fetch_result.splits)
  then show ?thesis
    using rateLimitedFetch_step(6-9) [OF f] by simp
qed

lemma resolveGeoCode_error_keeps_cache:
  assumes "resolveGeoCode w rx u query st = (Inl e, st')"
  shows "cachedToc st' = cachedToc st \<and> tocCachedAt st' = tocCachedAt st
         \<and> cachedGeoCodes st' = cachedGeoCodes st \<and> geoCodesCachedAt st' = geoCodesCachedAt st"
proof -
  obtain r st1 where f: "rateLimitedFetch w geoUrl sdmxHeaders st = (r, st1)"
    by (cases "rateLimitedFetch w geoUrl sdmxHeaders st")
  have "st' = st1 \<or> st' = st"
    using assms f
    by (auto simp: resolveGeoCode_def Let_def split: if_splits fetch_result.splits option.splits)
  then show ?thesis
    using rateLimitedFetch_step(6-9) [OF f] by auto
qed

lemma fetchToc_refused:
  assumes "cachedToc st = None \<or> TOC_CACHE_DURATION_MS \<le> clock st - tocCachedAt st"
    and "rateLimitedFetch w (tocUrl lang) [] st = (Response res, st1)" and "\<not> ok res"
  shows "fetchToc w lang st
         = (Inl (Error (str ''Failed to fetch TOC: '' @ natToString (status res)
                        @ str '' '' @ statusText res)), st1)"
  using assms by (auto simp: fetchToc_def Let_def)

lemma resolveGeoCode_refused:
  assumes "cachedGeoCodes st = None \<or> TOC_CACHE_DURATION_MS < clock st - geoCodesCachedAt st"
    and "rateLimitedFetch w geoUrl sdmxHeaders st = (Response res, st1)" and "\<not> ok res"
  shows "resolveGeoCode w rx u query st
         = (Inl (Error (str ''Failed to fetch GEO codelist: '' @ natToString (status res))), st1)"
  using assms by (auto simp: resolveGeoCode_def Let_def)

lemma fetchToc_success_caches:
  assumes "fetchToc w lang st = (Inr toc, st')"
  shows "cachedToc st' = Some toc"
  using assms
  by (auto simp: fetchToc_def Let_def split: if_splits fetch_result.splits prod.splits)

text \<open>
  C9. When the catalog has to be loaded and the server answers with a status outside
  200 to 299, \<open>fetchToc\<close> and \<open>searchDatasets\<close> raise an error that names the status,
  and so does \<open>resolveGeoCode\<close> for the list of geo codes. Whatever the error that one
  of the three operations raises, both snapshots and both time stamps are then what
  they were before the call. A catalog that \<open>fetchToc\<close> returns is the one in the cache.
\<close>

theorem failed_refresh_keeps_cache:
  "(\<forall>res st1.
      (cachedToc st = None \<or> TOC_CACHE_DURATION_MS \<le> clock st - tocCachedAt st)
      \<and> rateLimitedFetch w (tocUrl lang) [] st = (Response res, st1) \<and> \<not> ok res
      \<longrightarrow> fetchToc w lang st
            = (Inl (Error (str ''Failed to fetch TOC: '' @ natToString (status res)
                           @ str '' '' @ statusText res)), st1)
          \<and> searchDatasets w u query lang limit st
            = (Inl (Error (str ''Failed to fetch TOC: '' @ natToString (status res)
                           @ str '' '' @ statusText res)), st1))
   \<and> (\<forall>res st1.
      (cachedGeoCodes st = None \<or> TOC_CACHE_DURATION_MS < clock st - geoCodesCachedAt st)
      \<and> rateLimitedFetch w geoUrl sdmxHeaders st = (Response res, st1) \<and> \<not> ok res
      \<longrightarrow> resolveGeoCode w rx u gquery st
            = (Inl (Error (str ''Failed to fetch GEO codelist: '' @ natToString (status res))),
               st1))
   \<and> (\<forall>e st'. fetchToc w lang st = (Inl e, st') \<or> searchDatasets w u query lang limit st = (Inl e, st')
               \<or> resolveGeoCode w rx u gquery st = (Inl e, st')
      \<longrightarrow> cachedToc st' = cachedToc st \<and> tocCachedAt st' = tocCachedAt st
          \<and> cachedGeoCodes st' = cachedGeoCodes st \<and> geoCodesCachedAt st' = geoCodesCachedAt st)
   \<and> (\<forall>toc st'. fetchToc w lang st = (Inr toc, st') \<longrightarrow> cachedToc st' = Some toc)"
proof (intro conjI)
  show "\<forall>res st1.
      (cachedToc st = None \<or> TOC_CACHE_DURATION_MS \<le> clock st - tocCachedAt st)
      \<and> rateLimitedFetch w (tocUrl lang) [] st = (Response res, st1) \<and> \<not> ok res
      \<longrightarrow> fetchToc w lang st
            = (Inl (Error (str ''Failed to fetch TOC: '' @ natToString (status res)
                           @ str '' '' @ statusText res)), st1)
          \<and> searchDatasets w u query lang limit st
            = (Inl (Error (str ''Failed to fetch TOC: '' @ natToString (status res)
                           @ str '' '' @ statusText res)), st1)"
    using fetchToc_refused [of st w lang] by (simp add: searchDatasets_def)
  show "\<forall>res st1.
      (cachedGeoCodes st = None \<or> TOC_CACHE_DURATION_MS < clock st - geoCodesCachedAt st)
      \<and> rateLimitedFetch w geoUrl sdmxHeaders st = (Response res, st1) \<and> \<not> ok res
      \<longrightarrow> resolveGeoCode w rx u gquery st
            = (Inl (Error (str ''Failed to fetch GEO codelist: '' @ natToString (status res))),
               st1)"
    using resolveGeoCode_refused [of st w] by blast
  have "\<And>e st'. searchDatasets w u query lang limit st = (Inl e, st')
          \<Longrightarrow> fetchToc w lang st = (Inl e, st')"
    by (auto simp: searchDatasets_def split: prod.splits sum.splits)
  then show "\<forall>e st'. fetchToc w lang st = (Inl e, st')
               \<or> searchDatasets w u query lang limit st = (Inl e, st')
               \<or> resolveGeoCode w rx u gquery st = (Inl e, st')
      \<longrightarrow> cachedToc st' = cachedToc st \<and> tocCachedAt st' = tocCachedAt st
          \<and> cachedGeoCodes st' = cachedGeoCodes st \<and> geoCodesCachedAt st' = geoCodesCachedAt st"
    using fetchToc_error_keeps_cache [of w lang st]
      resolveGeoCode_error_keeps_cache [of w rx u gquery st] by blast
  show "\<forall>toc st'. fetchToc w lang st = (Inr toc, st') \<longrightarrow> cachedToc st' = Some toc"
    using fetchToc_success_caches by blast
qed

theorem failed_refresh_keeps_cache_witness:
  "(cachedToc staleState = None \<or> TOC_CACHE_DURATION_MS \<le> clock staleState - tocCachedAt staleState)
   \<and> rateLimitedFetch busyWorld (tocUrl (str ''en'')) [] staleState
     = (Response \<lparr>status = 503, statusText = str ''Busy'', body = []\<rparr>,
        staleState\<lparr>lastRequestTime := 4000000, clock := 4000040\<rparr>)
   \<and> \<not> ok \<lparr>status = 503, statusText = str ''Busy'', body = []\<rparr>
   \<and> fetchToc busyWorld (str ''en'') staleState
     = (Inl (Error (str ''Failed to fetch TOC: 503 Busy'')),
        staleState\<lparr>lastRequestTime := 4000000, clock := 4000040\<rparr>)
   \<and> cachedToc (snd (fetchToc busyWorld (str ''en'') staleState))
     = Some [tocEntry ''T1'' ''GDP'']
   \<and> tocCachedAt (snd (fetchToc busyWorld (str ''en'') staleState)) = 0"
proof -
  have hyp:
    "(cachedToc staleState = None \<or> TOC_CACHE_DURATION_MS \<le> clock staleState - tocCachedAt staleState)
     \<and> rateLimitedFetch busyWorld (tocUrl (str ''en'')) [] staleState
       = (Response \<lparr>status = 503, statusText = str ''Busy'', body = []\<rparr>,
          staleState\<lparr>lastRequestTime := 4000000, clock := 4000040\<rparr>)
     \<and> \<not> ok \<lparr>status = 503, statusText = str ''Busy'', body = []\<rparr>"
    by (simp add: staleState_def busyWorld_def rateLimitedFetch_def Let_def ok_def
          TOC_CACHE_DURATION_MS_def MIN_REQUEST_INTERVAL_MS_def)
  have msg: "str ''Failed to fetch TOC: '' @ natToString 503 @ str '' '' @ str ''Busy''
             = str ''Failed to fetch TOC: 503 Busy''"
    by (simp add: natToString.simps str_def)
  have run: "fetchToc busyWorld (str ''en'') staleState
     = (Inl (Error (str ''Failed to fetch TOC: 503 Busy'')),
        staleState\<lparr>lastRequestTime := 4000000, clock := 4000040\<rparr>)"
    using failed_refresh_keeps_cache
      [of staleState busyWorld "str ''en''" latin1 "[]" 20 noRegex "[]", THEN conjunct1, rule_format, OF hyp]
    by (simp add: msg)
  show ?thesis
    using hyp run by (simp add: staleState_def)
qed

lemma fetchToc_fresh:
  assumes "cachedToc st = Some toc" and "clock st - tocCachedAt st < TOC_CACHE_DURATION_MS"
  shows "fetchToc w lang st = (Inr toc, st)"
  using assms by (simp add: fetchToc_def Let_def)

text \<open>
  C10. The cached catalog is kept under no key: while it is fresh, \<open>searchDatasets\<close>
  ranks the cached catalog and leaves the state as it is, whatever the language and
  whatever the server would answer, so that two runs that differ in the language only
  give the same result. In particular, when a first call has loaded the catalog under
  one language, a call made within the hour with another language ranks the catalog
  of the first.
\<close>

theorem fresh_catalog_ignores_language:
  "(cachedToc st = Some toc \<and> clock st - tocCachedAt st < TOC_CACHE_DURATION_MS
      \<longrightarrow> searchDatasets w u query lang limit st = (Inr (rankEntries u toc query limit), st)
        \<and> searchDatasets w u query lang limit st = searchDatasets w' u query lang' limit st)
   \<and> (fetchToc w lang st = (Inr toc, st1)
       \<and> clock st1 + int gap - tocCachedAt st1 < TOC_CACHE_DURATION_MS
      \<longrightarrow> searchDatasets w' u query lang' limit (st1\<lparr>clock := clock st1 + int gap\<rparr>)
          = (Inr (rankEntries u toc query limit), st1\<lparr>clock := clock st1 + int gap\<rparr>))"
proof (rule conjI; rule impI)
  assume a: "cachedToc st = Some toc \<and> clock st - tocCachedAt st < TOC_CACHE_DURATION_MS"
  then have "\<And>v l. fetchToc v l st = (Inr toc, st)"
    using fetchToc_fresh by blast
  then show "searchDatasets w u query lang limit st = (Inr (rankEntries u toc query limit), st)
        \<and> searchDatasets w u query lang limit st = searchDatasets w' u query lang' limit st"
    by (simp add: searchDatasets_def)
next
  assume a: "fetchToc w lang st = (Inr toc, st1)
       \<and> clock st1 + int gap - tocCachedAt st1 < TOC_CACHE_DURATION_MS"
  then have "cachedToc (st1\<lparr>clock := clock st1 + int gap\<rparr>) = Some toc"
    using fetchToc_success_caches [of w lang st toc st1] by simp
  moreover have "clock (st1\<lparr>clock := clock st1 + int gap\<rparr>)
                 - tocCachedAt (st1\<lparr>clock := clock st1 + int gap\<rparr>) < TOC_CACHE_DURATION_MS"
    using a by simp
  ultimately have "fetchToc w' lang' (st1\<lparr>clock := clock st1 + int gap\<rparr>)
                   = (Inr toc, st1\<lparr>clock := clock st1 + int gap\<rparr>)"
    by (rule fetchToc_fresh)
  then show "searchDatasets w' u query lang' limit (st1\<lparr>clock := clock st1 + int gap\<rparr>)
          = (Inr (rankEntries u toc query limit), st1\<lparr>clock := clock st1 + int gap\<rparr>)"
    by (simp add: searchDatasets_def)
qed

text \<open>
  The example: the English catalog is loaded first, and a French search five seconds
  later finds the English title. On a module just loaded the same French search asks
  for the French catalog and finds nothing.
\<close>

lemma parse_en: "parseToc (catalogText ''GDP'') = [tocEntry ''T1'' ''GDP'']"
  by (simp add: parseToc_def parseTocLine_def trim_def partOr_def partOpt_def catalogText_def
        List.map_filter_simps isWhiteSpace_def tocEntry_def str_def Let_def)

lemma parse_fr: "parseToc (catalogText ''PIB'') = [tocEntry ''T1'' ''PIB'']"
  by (simp add: parseToc_def parseTocLine_def trim_def partOr_def partOpt_def catalogText_def
        List.map_filter_simps isWhiteSpace_def tocEntry_def str_def Let_def)

lemma url_differ: "tocUrl (str ''en'') \<noteq> tocUrl (str ''fr'')"
  by (simp add: tocUrl_def str_def)

lemma first_en:
  "fetchToc twoLanguages (str ''en'') (initialState 1000) = (Inr [tocEntry ''T1'' ''GDP''], loadedEn)"
  using url_differ
  by (simp add: fetchToc_def rateLimitedFetch_def Let_def twoLanguages_def initialState_def
        MIN_REQUEST_INTERVAL_MS_def TOC_CACHE_DURATION_MS_def ok_def parse_en loadedEn_def)

lemma first_fr:
  "fst (fetchToc twoLanguages (str ''fr'') (initialState 1000)) = Inr [tocEntry ''T1'' ''PIB'']"
  by (simp add: fetchToc_def rateLimitedFetch_def Let_def twoLanguages_def initialState_def
        MIN_REQUEST_INTERVAL_MS_def TOC_CACHE_DURATION_MS_def ok_def parse_fr)

lemma rank_en: "rankEntries latin1 [tocEntry ''T1'' ''GDP''] (str ''gdp'') 20 = [tocEntry ''T1'' ''GDP'']"
  by (simp add: rankEntries_def score_def queryTerms_def Let_def slice0_def
        tocEntry_def str_def latin1_def lowerUnit_def isWhiteSpace_def)

lemma rank_fr: "rankEntries latin1 [tocEntry ''T1'' ''PIB''] (str ''gdp'') 20 = []"
  by (simp add: rankEntries_def score_def queryTerms_def Let_def slice0_def
        tocEntry_def str_def latin1_def lowerUnit_def isWhiteSpace_def)

theorem fresh_catalog_ignores_language_witness:
  "fetchToc twoLanguages (str ''en'') (initialState 1000) = (Inr [tocEntry ''T1'' ''GDP''], loadedEn)
   \<and> clock loadedEn + int 5000 - tocCachedAt loadedEn < TOC_CACHE_DURATION_MS
   \<and> searchDatasets twoLanguages latin1 (str ''gdp'') (str ''fr'') 20
        (loadedEn\<lparr>clock := clock loadedEn + int 5000\<rparr>)
     = (Inr [tocEntry ''T1'' ''GDP''], loadedEn\<lparr>clock := clock loadedEn + int 5000\<rparr>)
   \<and> fst (searchDatasets twoLanguages latin1 (str ''gdp'') (str ''fr'') 20 (initialState 1000)) = Inr []"
proof -
  have hyp: "fetchToc twoLanguages (str ''en'') (initialState 1000)
             = (Inr [tocEntry ''T1'' ''GDP''], loadedEn)
       \<and> clock loadedEn + int 5000 - tocCachedAt loadedEn < TOC_CACHE_DURATION_MS"
    by (simp add: first_en) (simp add: loadedEn_def TOC_CACHE_DURATION_MS_def)
  have stale: "fst (searchDatasets twoLanguages latin1 (str ''gdp'') (str ''fr'') 20 (initialState 1000))
               = Inr []"
    using first_fr
    by (cases "fetchToc twoLanguages (str ''fr'') (initialState 1000)")
       (simp add: searchDatasets_def rank_fr)
  show ?thesis
    using hyp stale
      fresh_catalog_ignores_language
        [of "initialState 1000" "[tocEntry ''T1'' ''GDP'']" twoLanguages latin1 "str ''gdp''"
            "str ''en''" 20 twoLanguages "str ''fr''" loadedEn 5000, THEN conjunct2, rule_format, OF hyp]
    by (simp add: rank_en)
qed

subsection \<open>Dataset structure\<close>

lemma keys_setKey:
  "map fst (setKey k v m) = (if k \<in> set (map fst m) then map fst m else map fst m @ [k])"
  by (induction m) (auto simp: image_iff, force+)

lemma setAll_snoc: "setAll base (kvs @ [(k, v)]) = setKey k v (setAll base kvs)"
  by (simp add: setAll_def)

lemma keys_setAll: "map fst (setAll [] kvs) = rev (remdups (rev (map fst kvs)))"
proof (induction kvs rule: rev_induct)
  case Nil
  then show ?case by (simp add: setAll_def)
next
  case (snoc kv kvs)
  obtain k v where kv: "kv = (k, v)" by (cases kv)
  have "set (map fst (setAll [] kvs)) = set (map fst kvs)"
    by (simp only: snoc.IH) simp
  then show ?case
    using snoc.IH by (simp add: kv setAll_snoc keys_setKey)
qed

lemma buildDimensions_ok:
  "buildDimensions rx xml clm entries = Inr dims \<Longrightarrow>
   map dim_id dims = map fst entries \<and> (\<forall>d \<in> set dims. length (dim_values d) \<le> 200)"
proof (induction entries arbitrary: dims)
  case Nil
  then show ?case by simp
next
  case (Cons entry entries)
  obtain dimId clId where entry: "entry = (dimId, clId)" by (cases entry)
  from Cons.prems obtain ds d where
    ds: "buildDimensions rx xml clm entries = Inr ds" and dims: "dims = d # ds"
    and d: "dim_id d = dimId" "length (dim_values d) \<le> 200"
    by (auto simp: entry Let_def split: regex_result.splits sum.splits)
  then show ?case
    using Cons.IH [OF ds] by (simp add: entry)
qed

lemma decodeStructure_ok:
  assumes "decodeStructure rx u datasetCode xml = Inr s"
  shows "map dim_id (ds_dimensions s)
         = rev (remdups (rev (map fst (dimMatches rx xml))))
           @ (case timeDimMatch rx xml of Some tid \<Rightarrow> [tid] | None \<Rightarrow> [])"
    and "\<forall>d \<in> set (ds_dimensions s). length (dim_values d) \<le> 200"
    and "timeDimMatch rx xml = Some tid \<Longrightarrow>
           ds_dimensions s = butlast (ds_dimensions s) @ [timeDimension tid]"
    and "timeDimMatch rx xml = None \<Longrightarrow>
           length (ds_dimensions s) = length (remdups (map fst (dimMatches rx xml)))"
proof -
  from assms obtain dims where
    b: "buildDimensions rx xml
          (setAll [] (map (\<lambda>(clId, clContent).
                    (clId, map (\<lambda>(i, n). \<lparr>item_id = i, item_name = n\<rparr>)
                               (codeMatches rx clContent)))
                 (codelistMatches rx xml)))
          (setAll [] (dimMatches rx xml)) = Inr dims"
    and s: "ds_dimensions s = dims @ (case timeDimMatch rx xml of
                              Some tid \<Rightarrow> [timeDimension tid] | None \<Rightarrow> [])"
    by (auto simp: decodeStructure_def Let_def split: sum.splits)
  note ok = buildDimensions_ok [OF b]
  show "map dim_id (ds_dimensions s)
         = rev (remdups (rev (map fst (dimMatches rx xml))))
           @ (case timeDimMatch rx xml of Some tid \<Rightarrow> [tid] | None \<Rightarrow> [])"
    using ok by (simp add: s keys_setAll timeDimension_def split: option.splits)
  show "\<forall>d \<in> set (ds_dimensions s). length (dim_values d) \<le> 200"
    using ok by (auto simp: s timeDimension_def split: option.splits)
  show "timeDimMatch rx xml = Some tid \<Longrightarrow>
           ds_dimensions s = butlast (ds_dimensions s) @ [timeDimension tid]"
    by (simp add: s)
  have "length dims = length (remdups (map fst (dimMatches rx xml)))"
    using ok keys_setAll [of "dimMatches rx xml"]
    by (metis length_map length_rev length_remdups_card_conv set_rev)
  then show "timeDimMatch rx xml = None \<Longrightarrow>
           length (ds_dimensions s) = length (remdups (map fst (dimMatches rx xml)))"
    by (simp add: s)
qed

text \<open>
  C7. When \<open>getDatasetStructure\<close> returns a structure, the server has answered with a
  status from 200 to 299, and on the text of that answer: the ids of the dimensions
  are the declared dimension ids in the order of their first declaration, each once,
  followed by the id of the time dimension when one was detected; every dimension
  carries at most 200 codes; and a detected time dimension is the last element, the
  synthetic dimension with its single placeholder code.
\<close>

theorem structure_dimensions:
  "getDatasetStructure w rx u datasetCode st = (Inr s, st') \<longrightarrow>
     (\<exists>res. fst (rateLimitedFetch w (structureUrl u datasetCode) sdmxHeaders st) = Response res
         \<and> ok res
         \<and> map dim_id (ds_dimensions s)
           = rev (remdups (rev (map fst (dimMatches rx (body res)))))
             @ (case timeDimMatch rx (body res) of Some tid \<Rightarrow> [tid] | None \<Rightarrow> [])
         \<and> (\<forall>d \<in> set (ds_dimensions s). length (dim_values d) \<le> 200)
         \<and> (\<forall>tid. timeDimMatch rx (body res) = Some tid \<longrightarrow>
               ds_dimensions s = butlast (ds_dimensions s) @ [timeDimension tid]
               \<and> length (dim_values (timeDimension tid)) = 1))"
proof
  assume run: "getDatasetStructure w rx u datasetCode st = (Inr s, st')"
  obtain r st1 where f: "rateLimitedFetch w (structureUrl u datasetCode) sdmxHeaders st = (r, st1)"
    by (cases "rateLimitedFetch w (structureUrl u datasetCode) sdmxHeaders st")
  from run f obtain res where r: "r = Response res" and ok: "ok res"
    and dec: "decodeStructure rx u datasetCode (body res) = Inr s"
    by (auto simp: getDatasetStructure_def split: fetch_result.splits if_splits)
  show "\<exists>res. fst (rateLimitedFetch w (structureUrl u datasetCode) sdmxHeaders st) = Response res
         \<and> ok res
         \<and> map dim_id (ds_dimensions s)
           = rev (remdups (rev (map fst (dimMatches rx (body res)))))
             @ (case timeDimMatch rx (body res) of Some tid \<Rightarrow> [tid] | None \<Rightarrow> [])
         \<and> (\<forall>d \<in> set (ds_dimensions s). length (dim_values d) \<le> 200)
         \<and> (\<forall>tid. timeDimMatch rx (body res) = Some tid \<longrightarrow>
               ds_dimensions s = butlast (ds_dimensions s) @ [timeDimension tid]
               \<and> length (dim_values (timeDimension tid)) = 1)"
    using decodeStructure_ok(1-3) [OF dec] ok
    by (intro exI [of _ res]) (simp add: f r timeDimension_def)
qed



lemma decodeStructure_demo:
  "decodeStructure demoRegex latin1 (str ''tps1'') (str ''xml'') = Inr demoStructure"
proof -
  have up: "toUpperCase latin1 (str ''tps1'') = str ''TPS1''"
    by (simp add: latin1_def upperUnit_def str_def)
  have neq: "str ''unit'' \<noteq> str ''geo''" "str ''CL_UNIT'' \<noteq> str ''CL_GEO''"
    by (simp_all add: str_def)
  have codes: "take 200 (map (\<lambda>(i, n). \<lparr>item_id = i, item_name = n\<rparr>) manyCodes)
               = replicate 200 \<lparr>item_id = str ''AT'', item_name = str ''Austria''\<rparr>"
    unfolding manyCodes_def by (simp only: map_replicate take_replicate) simp
  show ?thesis
    using neq
    by (simp add: decodeStructure_def demoRegex_def Let_def setAll_def up codes demoStructure_def)
qed

theorem structure_dimensions_witness:
  "getDatasetStructure okWorld demoRegex latin1 (str ''tps1'') (initialState 1000)
   = (Inr demoStructure, (initialState 1000)\<lparr>lastRequestTime := 1000, clock := 1040\<rparr>)
   \<and> map dim_id (ds_dimensions demoStructure) = [str ''geo'', str ''unit'', str ''TIME_PERIOD'']
   \<and> map (\<lambda>d. length (dim_values d)) (ds_dimensions demoStructure) = [200, 0, 1]
   \<and> (\<exists>res. fst (rateLimitedFetch okWorld (structureUrl latin1 (str ''tps1'')) sdmxHeaders
                     (initialState 1000)) = Response res
         \<and> ok res
         \<and> map dim_id (ds_dimensions demoStructure)
           = rev (remdups (rev (map fst (dimMatches demoRegex (body res)))))
             @ (case timeDimMatch demoRegex (body res) of Some tid \<Rightarrow> [tid] | None \<Rightarrow> [])
         \<and> (\<forall>d \<in> set (ds_dimensions demoStructure). length (dim_values d) \<le> 200)
         \<and> (\<forall>tid. timeDimMatch demoRegex (body res) = Some tid \<longrightarrow>
               ds_dimensions demoStructure
               = butlast (ds_dimensions demoStructure) @ [timeDimension tid]
               \<and> length (dim_values (timeDimension tid)) = 1))"
proof -
  have run: "getDatasetStructure okWorld demoRegex latin1 (str ''tps1'') (initialState 1000)
     = (Inr demoStructure, (initialState 1000)\<lparr>lastRequestTime := 1000, clock := 1040\<rparr>)"
    by (simp add: getDatasetStructure_def rateLimitedFetch_def Let_def okWorld_def
          initialState_def ok_def MIN_REQUEST_INTERVAL_MS_def decodeStructure_demo)
  have ids: "map dim_id (ds_dimensions demoStructure) = [str ''geo'', str ''unit'', str ''TIME_PERIOD'']"
    by (simp add: demoStructure_def timeDimension_def)
  have lens: "map (\<lambda>d. length (dim_values d)) (ds_dimensions demoStructure) = [200, 0, 1]"
    by (simp add: demoStructure_def timeDimension_def)
  show ?thesis
    by (intro conjI run ids lens structure_dimensions [rule_format, OF run])
qed

subsection \<open>Geo code resolution\<close>

lemma slice0_20: "slice0 xs 20 = take 20 xs"
  by (simp add: slice0_def)

lemma resolveGeoCode_result:
  assumes "resolveGeoCode w rx u query st = (Inr res, st')"
  shows "\<exists>codes. cachedGeoCodes st' = Some codes \<and> res = take 20 (filter (geoMatches u query) codes)"
  using assms
  by (auto simp: resolveGeoCode_def Let_def slice0_20
           split: if_splits fetch_result.splits option.splits prod.splits)

lemma resolveGeoCode_fresh:
  assumes "cachedGeoCodes st = Some codes"
    and "clock st - geoCodesCachedAt st \<le> TOC_CACHE_DURATION_MS"
  shows "resolveGeoCode w rx u query st = (Inr (take 20 (filter (geoMatches u query) codes)), st)"
  using assms by (simp add: resolveGeoCode_def Let_def slice0_20)

lemma geoMatches_eq:
  "geoMatches u query
   = (\<lambda>gc. toLowerCase u (geo_code gc) = toLowerCase u query
           \<or> jsIncludes (toLowerCase u (geo_name gc)) (toLowerCase u query)
           \<or> jsIncludes (normalize u (geo_name gc)) (normalize u query))"
  by (rule ext) (simp add: geoMatches_def fuzzyMatch_def Let_def)

lemma subseq_take_filter: "subseq (take n (filter P xs)) xs"
  by (meson prefix_imp_subseq subseq_filter_left subseq_order.order_trans take_is_prefix)

lemma osterreich_matches:
  assumes "toLowerCase u ([214] @ str ''sterreich'') = [246] @ str ''sterreich''"
    and "normalizeNFD u ([246] @ str ''sterreich'') = [111, 776] @ str ''sterreich''"
    and "toLowerCase u (str ''Osterreich'') = str ''osterreich''"
    and "normalizeNFD u (str ''osterreich'') = str ''osterreich''"
    and "geo_name entry = [214] @ str ''sterreich''"
  shows "jsIncludes (normalize u (geo_name entry)) (normalize u (str ''Osterreich''))"
proof -
  have "normalize u (geo_name entry) = str ''osterreich''"
    using assms(1,2,5) by (simp add: normalize_def) (simp add: str_def)
  moreover have "normalize u (str ''Osterreich'') = str ''osterreich''"
    using assms(3,4) by (simp add: normalize_def) (simp add: str_def)
  ultimately show ?thesis
    by (simp add: jsIncludes_iff_sublist)
qed

text \<open>
  C6. When \<open>resolveGeoCode\<close> returns, its result is the first 20 of the entries of the
  cached list, in the order of the list, that satisfy one of three tests: the code
  equals the query without regard to case; the lower-case name contains the
  lower-case query; the name contains the query after both were put in lower case,
  decomposed, and stripped of their combining marks. With a fresh cache the list is
  the one already cached, and the state is unchanged; after a refresh it is the list
  built from the answer of the server. The third test finds \<open>Osterreich\<close> in the name
  written with \<open>U+00D6\<close> for its first letter, given what the runtime does with the
  two words: the letter has the small letter \<open>U+00F6\<close>, which decomposes into \<open>o\<close> and
  the mark \<open>U+0308\<close>.
\<close>

theorem geo_resolution:
  "(\<forall>res st'. resolveGeoCode w rx u query st = (Inr res, st') \<longrightarrow>
       cachedGeoCodes st' \<noteq> None
     \<and> res = take 20 (filter (\<lambda>gc. toLowerCase u (geo_code gc) = toLowerCase u query
                                  \<or> jsIncludes (toLowerCase u (geo_name gc)) (toLowerCase u query)
                                  \<or> jsIncludes (normalize u (geo_name gc)) (normalize u query))
                             (the (cachedGeoCodes st')))
     \<and> length res \<le> 20
     \<and> subseq res (the (cachedGeoCodes st')))
   \<and> (cachedGeoCodes st = Some codes \<and> clock st - geoCodesCachedAt st \<le> TOC_CACHE_DURATION_MS
      \<longrightarrow> resolveGeoCode w rx u query st
          = (Inr (take 20 (filter (\<lambda>gc. toLowerCase u (geo_code gc) = toLowerCase u query
                                  \<or> jsIncludes (toLowerCase u (geo_name gc)) (toLowerCase u query)
                                  \<or> jsIncludes (normalize u (geo_name gc)) (normalize u query))
                             codes)), st))
   \<and> ((cachedGeoCodes st = None \<or> TOC_CACHE_DURATION_MS < clock st - geoCodesCachedAt st)
       \<and> rateLimitedFetch w geoUrl sdmxHeaders st = (Response resp, st1) \<and> ok resp
      \<longrightarrow> resolveGeoCode w rx u query st
          = (Inr (take 20 (filter (\<lambda>gc. toLowerCase u (geo_code gc) = toLowerCase u query
                                  \<or> jsIncludes (toLowerCase u (geo_name gc)) (toLowerCase u query)
                                  \<or> jsIncludes (normalize u (geo_name gc)) (normalize u query))
                             (parseGeoCodes rx (body resp)))),
             st1\<lparr>cachedGeoCodes := Some (parseGeoCodes rx (body resp)),
                 geoCodesCachedAt := clock st\<rparr>))
   \<and> (toLowerCase u ([214] @ str ''sterreich'') = [246] @ str ''sterreich''
       \<and> normalizeNFD u ([246] @ str ''sterreich'') = [111, 776] @ str ''sterreich''
       \<and> toLowerCase u (str ''Osterreich'') = str ''osterreich''
       \<and> normalizeNFD u (str ''osterreich'') = str ''osterreich''
       \<and> geo_name entry = [214] @ str ''sterreich''
      \<longrightarrow> jsIncludes (normalize u (geo_name entry)) (normalize u (str ''Osterreich'')))"
proof (intro conjI)
  show "\<forall>res st'. resolveGeoCode w rx u query st = (Inr res, st') \<longrightarrow>
       cachedGeoCodes st' \<noteq> None
     \<and> res = take 20 (filter (\<lambda>gc. toLowerCase u (geo_code gc) = toLowerCase u query
                                  \<or> jsIncludes (toLowerCase u (geo_name gc)) (toLowerCase u query)
                                  \<or> jsIncludes (normalize u (geo_name gc)) (normalize u query))
                             (the (cachedGeoCodes st')))
     \<and> length res \<le> 20
     \<and> subseq res (the (cachedGeoCodes st'))"
  proof (intro allI impI)
    fix res st'
    assume "resolveGeoCode w rx u query st = (Inr res, st')"
    then obtain codes where c: "cachedGeoCodes st' = Some codes"
      and r: "res = take 20 (filter (geoMatches u query) codes)"
      using resolveGeoCode_result by blast
    show "cachedGeoCodes st' \<noteq> None
     \<and> res = take 20 (filter (\<lambda>gc. toLowerCase u (geo_code gc) = toLowerCase u query
                                  \<or> jsIncludes (toLowerCase u (geo_name gc)) (toLowerCase u query)
                                  \<or> jsIncludes (normalize u (geo_name gc)) (normalize u query))
                             (the (cachedGeoCodes st')))
     \<and> length res \<le> 20
     \<and> subseq res (the (cachedGeoCodes st'))"
      using subseq_take_filter [of 20 "geoMatches u query" codes]
      by (simp add: c r geoMatches_eq [symmetric])
  qed
  show "cachedGeoCodes st = Some codes \<and> clock st - geoCodesCachedAt st \<le> TOC_CACHE_DURATION_MS
      \<longrightarrow> resolveGeoCode w rx u query st
          = (Inr (take 20 (filter (\<lambda>gc. toLowerCase u (geo_code gc) = toLowerCase u query
                                  \<or> jsIncludes (toLowerCase u (geo_name gc)) (toLowerCase u query)
                                  \<or> jsIncludes (normalize u (geo_name gc)) (normalize u query))
                             codes)), st)"
    using resolveGeoCode_fresh [of st codes w rx u query]
    by (simp add: geoMatches_eq [symmetric])
  show "(cachedGeoCodes st = None \<or> TOC_CACHE_DURATION_MS < clock st - geoCodesCachedAt st)
       \<and> rateLimitedFetch w geoUrl sdmxHeaders st = (Response resp, st1) \<and> ok resp
      \<longrightarrow> resolveGeoCode w rx u query st
          = (Inr (take 20 (filter (\<lambda>gc. toLowerCase u (geo_code gc) = toLowerCase u query
                                  \<or> jsIncludes (toLowerCase u (geo_name gc)) (toLowerCase u query)
                                  \<or> jsIncludes (normalize u (geo_name gc)) (normalize u query))
                             (parseGeoCodes rx (body resp)))),
             st1\<lparr>cachedGeoCodes := Some (parseGeoCodes rx (body resp)),
                 geoCodesCachedAt := clock st\<rparr>)"
    using resolveGeoCode_refresh [of st w resp st1 rx u query]
    by (simp add: geoMatches_eq [symmetric])
  show "toLowerCase u ([214] @ str ''sterreich'') = [246] @ str ''sterreich''
       \<and> normalizeNFD u ([246] @ str ''sterreich'') = [111, 776] @ str ''sterreich''
       \<and> toLowerCase u (str ''Osterreich'') = str ''osterreich''
       \<and> normalizeNFD u (str ''osterreich'') = str ''osterreich''
       \<and> geo_name entry = [214] @ str ''sterreich''
      \<longrightarrow> jsIncludes (normalize u (geo_name entry)) (normalize u (str ''Osterreich''))"
    using osterreich_matches [of u entry] by blast
qed

text \<open>
  The example, on the runtime of the examples: the query \<open>Osterreich\<close> finds the two
  entries whose names have the letter \<open>U+00D6\<close> or \<open>U+00F6\<close> in its place, in the order
  of the cached list, and not the entry for Germany.
\<close>

lemma geoMatches_examples:
  "\<not> geoMatches latin1 (str ''Osterreich'') (geoEntry (str ''DE'') (str ''Deutschland''))"
  "geoMatches latin1 (str ''Osterreich'') (geoEntry (str ''AT'') ([214] @ str ''sterreich''))"
  "geoMatches latin1 (str ''Osterreich'')
     (geoEntry (str ''AT1'') (str ''Ost'' @ [246] @ str ''sterreich''))"
  by (simp_all add: geoMatches_def fuzzyMatch_def normalize_def latin1_def nfdUnit_def
        latin1Capitals_def lowerUnit_def geoEntry_def str_def Let_def)

theorem geo_resolution_witness:
  "cachedGeoCodes geoLoaded
   = Some [geoEntry (str ''DE'') (str ''Deutschland''),
           geoEntry (str ''AT'') ([214] @ str ''sterreich''),
           geoEntry (str ''AT1'') (str ''Ost'' @ [246] @ str ''sterreich'')]
   \<and> clock geoLoaded - geoCodesCachedAt geoLoaded \<le> TOC_CACHE_DURATION_MS
   \<and> resolveGeoCode busyWorld noRegex latin1 (str ''Osterreich'') geoLoaded
     = (Inr [geoEntry (str ''AT'') ([214] @ str ''sterreich''),
             geoEntry (str ''AT1'') (str ''Ost'' @ [246] @ str ''sterreich'')], geoLoaded)
   \<and> toLowerCase latin1 ([214] @ str ''sterreich'') = [246] @ str ''sterreich''
   \<and> normalizeNFD latin1 ([246] @ str ''sterreich'') = [111, 776] @ str ''sterreich''
   \<and> toLowerCase latin1 (str ''Osterreich'') = str ''osterreich''
   \<and> normalizeNFD latin1 (str ''osterreich'') = str ''osterreich''
   \<and> jsIncludes (normalize latin1 ([214] @ str ''sterreich''))
                 (normalize latin1 (str ''Osterreich''))"
proof -
  have hyp: "cachedGeoCodes geoLoaded
     = Some [geoEntry (str ''DE'') (str ''Deutschland''),
             geoEntry (str ''AT'') ([214] @ str ''sterreich''),
             geoEntry (str ''AT1'') (str ''Ost'' @ [246] @ str ''sterreich'')]
     \<and> clock geoLoaded - geoCodesCachedAt geoLoaded \<le> TOC_CACHE_DURATION_MS"
    by (simp add: geoLoaded_def TOC_CACHE_DURATION_MS_def)
  have runtime: "toLowerCase latin1 ([214] @ str ''sterreich'') = [246] @ str ''sterreich''
     \<and> normalizeNFD latin1 ([246] @ str ''sterreich'') = [111, 776] @ str ''sterreich''
     \<and> toLowerCase latin1 (str ''Osterreich'') = str ''osterreich''
     \<and> normalizeNFD latin1 (str ''osterreich'') = str ''osterreich''
     \<and> geo_name (geoEntry (str ''AT'') ([214] @ str ''sterreich'')) = [214] @ str ''sterreich''"
    by (simp add: latin1_def lowerUnit_def nfdUnit_def latin1Capitals_def geoEntry_def str_def)
  note inst = geo_resolution
    [of busyWorld noRegex latin1 "str ''Osterreich''" geoLoaded _ _ _
        "geoEntry (str ''AT'') ([214] @ str ''sterreich'')"]
  have found: "resolveGeoCode busyWorld noRegex latin1 (str ''Osterreich'') geoLoaded
     = (Inr [geoEntry (str ''AT'') ([214] @ str ''sterreich''),
             geoEntry (str ''AT1'') (str ''Ost'' @ [246] @ str ''sterreich'')], geoLoaded)"
    using geoMatches_examples inst [THEN conjunct2, THEN conjunct1, rule_format, OF hyp]
    by (simp add: geoMatches_eq [symmetric])
  have third: "jsIncludes (normalize latin1 ([214] @ str ''sterreich''))
                          (normalize latin1 (str ''Osterreich''))"
    using inst [THEN conjunct2, THEN conjunct2, THEN conjunct2, rule_format, OF runtime]
    by (simp add: geoEntry_def)
  show ?thesis
    using hyp runtime found third by simp
qed

end
